theory Spec2Isabelle
  imports Complex_Main "HOL-Library.Char_ord" "HOL-Library.List_Lexorder"
begin

section \<open>Python values used by the pipeline\<close>

text \<open>
  Exceptions of the Python code are values of \<open>py_error\<close>; a function that may raise
  returns \<open>py_error + 'a\<close> with \<open>Inl\<close> for the exception.
\<close>

datatype py_error = ValueError | IndexError | NameError | OverflowError | DatabaseError

subsection \<open>Strings\<close>

text \<open>
  Python compares \<open>str\<close> values lexicographically by code point; on \<open>string\<close> this is
  the order of \<open>List_Lexorder\<close> over \<open>Char_ord\<close>.
  \<open>starts_with s p\<close> is \<^verbatim>\<open>s.startswith(p)\<close>, \<open>ends_with s p\<close> is \<^verbatim>\<open>s.endswith(p)\<close>,
  \<open>contains s p\<close> is \<^verbatim>\<open>p in s\<close>, \<open>split_on c s\<close> is \<^verbatim>\<open>s.split(c)\<close> for a
  one-character separator and \<open>remove_char c s\<close> is \<^verbatim>\<open>s.replace(c, '')\<close>.
\<close>

fun starts_with :: "string \<Rightarrow> string \<Rightarrow> bool" where
  "starts_with s [] = True"
| "starts_with [] (p # ps) = False"
| "starts_with (c # cs) (p # ps) = (c = p \<and> starts_with cs ps)"

definition ends_with :: "string \<Rightarrow> string \<Rightarrow> bool" where
  "ends_with s p = starts_with (rev s) (rev p)"

fun contains :: "string \<Rightarrow> string \<Rightarrow> bool" where
  "contains [] p = (p = [])"
| "contains (c # cs) p = (starts_with (c # cs) p \<or> contains cs p)"

fun split_on :: "char \<Rightarrow> string \<Rightarrow> string list" where
  "split_on sep [] = [[]]"
| "split_on sep (c # cs) =
     (if c = sep then [] # split_on sep cs
      else (case split_on sep cs of
              [] \<Rightarrow> [[c]]
            | p # ps \<Rightarrow> (c # p) # ps))"

definition remove_char :: "char \<Rightarrow> string \<Rightarrow> string" where
  "remove_char c s = filter (\<lambda>x. x \<noteq> c) s"

subsection \<open>Number parsing\<close>

text \<open>
  The builtins \<^verbatim>\<open>int()\<close> and \<^verbatim>\<open>float()\<close> are parameters \<open>int_of\<close> and \<open>float_of\<close> of
  the functions that call them: they return \<open>None\<close> where Python raises ValueError.
  The general theorems hold for every such parser. \<open>dec_int\<close> and \<open>dec_float\<close> are the
  plain decimal fragment (optional sign, digits, for \<open>dec_float\<close> an optional fraction),
  used to run the functions on concrete rows.
\<close>

definition is_digit :: "char \<Rightarrow> bool" where
  "is_digit c \<longleftrightarrow> CHR ''0'' \<le> c \<and> c \<le> CHR ''9''"

definition digit_val :: "char \<Rightarrow> nat" where
  "digit_val c = of_char c - 48"

definition dec_nat :: "string \<Rightarrow> nat option" where
  "dec_nat s =
     (if s \<noteq> [] \<and> list_all is_digit s
      then Some (foldl (\<lambda>n c. 10 * n + digit_val c) 0 s)
      else None)"

definition dec_int :: "string \<Rightarrow> int option" where
  "dec_int s =
     (if s \<noteq> [] \<and> hd s = CHR ''-'' then map_option (\<lambda>n. - int n) (dec_nat (tl s))
      else if s \<noteq> [] \<and> hd s = CHR ''+'' then map_option int (dec_nat (tl s))
      else map_option int (dec_nat s))"

subsection \<open>Floats\<close>

text \<open>
  A Python float is modelled as an exact rational or one of the three special values of
  IEEE 754. Arithmetic on finite values is exact: the rounding error and the overflow of
  binary64 and the sign of zero are not modelled. The special values follow IEEE 754
  as numpy applies it to a float64 column (division by zero gives an infinity or NaN
  and does not raise).
\<close>

datatype pyfloat = Fin rat | PosInf | NegInf | NaN

definition isnan :: "pyfloat \<Rightarrow> bool" where
  "isnan x \<longleftrightarrow> x = NaN"

definition isinf :: "pyfloat \<Rightarrow> bool" where
  "isinf x \<longleftrightarrow> x = PosInf \<or> x = NegInf"

fun fneg :: "pyfloat \<Rightarrow> pyfloat" where
  "fneg (Fin a) = Fin (- a)"
| "fneg PosInf = NegInf"
| "fneg NegInf = PosInf"
| "fneg NaN = NaN"

fun fadd :: "pyfloat \<Rightarrow> pyfloat \<Rightarrow> pyfloat" where
  "fadd NaN y = NaN"
| "fadd x NaN = NaN"
| "fadd (Fin a) (Fin b) = Fin (a + b)"
| "fadd PosInf NegInf = NaN"
| "fadd NegInf PosInf = NaN"
| "fadd PosInf y = PosInf"
| "fadd NegInf y = NegInf"
| "fadd (Fin a) y = y"

definition fsub :: "pyfloat \<Rightarrow> pyfloat \<Rightarrow> pyfloat" where
  "fsub x y = fadd x (fneg y)"

definition inf_of_sign :: "rat \<Rightarrow> pyfloat" where
  "inf_of_sign s = (if s = 0 then NaN else if 0 < s then PosInf else NegInf)"

fun fsign :: "pyfloat \<Rightarrow> rat" where
  "fsign (Fin a) = sgn a"
| "fsign PosInf = 1"
| "fsign NegInf = - 1"
| "fsign NaN = 0"

fun fmul :: "pyfloat \<Rightarrow> pyfloat \<Rightarrow> pyfloat" where
  "fmul NaN y = NaN"
| "fmul x NaN = NaN"
| "fmul (Fin a) (Fin b) = Fin (a * b)"
| "fmul x y = inf_of_sign (fsign x * fsign y)"

fun fdiv :: "pyfloat \<Rightarrow> pyfloat \<Rightarrow> pyfloat" where
  "fdiv NaN y = NaN"
| "fdiv x NaN = NaN"
| "fdiv (Fin a) (Fin b) = (if b = 0 then inf_of_sign (sgn a) else Fin (a / b))"
| "fdiv (Fin a) y = Fin 0"
| "fdiv x (Fin b) = (if b = 0 then x else inf_of_sign (fsign x * sgn b))"
| "fdiv x y = NaN"

fun flt :: "pyfloat \<Rightarrow> pyfloat \<Rightarrow> bool" where
  "flt NaN y = False"
| "flt x NaN = False"
| "flt (Fin a) (Fin b) = (a < b)"
| "flt NegInf NegInf = False"
| "flt NegInf y = True"
| "flt x PosInf = (x \<noteq> PosInf)"
| "flt x y = False"


text \<open>
  \<^verbatim>\<open>round(x, n)\<close> rounds to \<open>n\<close> decimals, ties to the even neighbour, and leaves
  the special values as they are.
\<close>

definition round_half_even :: "rat \<Rightarrow> int" where
  "round_half_even q =
     (let f = \<lfloor>q\<rfloor>; d = q - of_int f
      in if d < 1 / 2 then f
         else if 1 / 2 < d then f + 1
         else if even f then f else f + 1)"

definition round_rat :: "nat \<Rightarrow> rat \<Rightarrow> rat" where
  "round_rat n q = of_int (round_half_even (q * 10 ^ n)) / 10 ^ n"

fun py_round :: "nat \<Rightarrow> pyfloat \<Rightarrow> pyfloat" where
  "py_round n (Fin q) = Fin (round_rat n q)"
| "py_round n x = x"

definition dec_float :: "string \<Rightarrow> pyfloat option" where
  "dec_float s =
     (let neg = (s \<noteq> [] \<and> hd s = CHR ''-'');
          body = (if s \<noteq> [] \<and> (hd s = CHR ''-'' \<or> hd s = CHR ''+'') then tl s else s);
          sgnq = (if neg then - 1 else 1 :: rat)
      in case split_on CHR ''.'' body of
           [ip] \<Rightarrow> map_option (\<lambda>n. Fin (sgnq * of_nat n)) (dec_nat ip)
         | [ip, fp] \<Rightarrow>
             (if ip = [] \<and> fp = [] then None
              else (case (if ip = [] then Some 0 else dec_nat ip,
                          if fp = [] then Some 0 else dec_nat fp) of
                      (Some i, Some f) \<Rightarrow>
                        Some (Fin (sgnq * (of_nat i + of_nat f / 10 ^ length fp)))
                    | _ \<Rightarrow> None))
         | _ \<Rightarrow> None)"

section \<open>Market classification and routing (\<open>StockDataAPI\<close>)\<close>

subsection \<open>\<open>is_otc_stock\<close>\<close>

text \<open>
  An entry of \<open>symbols_cache\<close> is a dict with the keys \<open>symbol\<close>, \<open>name\<close> and
  \<open>market\<close>; \<^verbatim>\<open>stock.get('market')\<close> is \<open>None\<close> when the key is missing.
  \<open>otc_label\<close> is the UTF-8 encoding of the two-character market label of the
  over-the-counter board that the cache entry is compared with.
\<close>

record stock_entry =
  symbol :: string
  name :: string
  market :: "string option"

definition otc_label :: string where
  "otc_label = [char_of (0xE4::nat), char_of (0xB8::nat), char_of (0x8A::nat),
                char_of (0xE6::nat), char_of (0xAB::nat), char_of (0x83::nat)]"

text \<open>
  The scan of the cache: the first entry whose symbol is the code, or starts with the
  code followed by a dot, decides. An empty (or absent) cache is the empty list.
\<close>

fun cache_lookup :: "stock_entry list \<Rightarrow> string \<Rightarrow> bool option" where
  "cache_lookup [] stock_code = None"
| "cache_lookup (stock # rest) stock_code =
     (if symbol stock = stock_code \<or> starts_with (symbol stock) (stock_code @ ''.'')
      then Some (market stock = Some otc_label)
      else cache_lookup rest stock_code)"

definition known_otc_stocks :: "string list" where
  "known_otc_stocks =
     [''3443'', ''4966'', ''6488'', ''3034'', ''3702'', ''4904'', ''5269'', ''6415'',
      ''1565'', ''1569'', ''1580'', ''2596'', ''2633'', ''2719'', ''2724'', ''2729'',
      ''3131'', ''3149'', ''3163'', ''3167'', ''3169'', ''3171'', ''3176'', ''3178'',
      ''4102'', ''4106'', ''4108'', ''4116'', ''4119'', ''4126'', ''4128'', ''4129'',
      ''5203'', ''5222'', ''5234'', ''5243'', ''5245'', ''5251'', ''5263'', ''5264'',
      ''6104'', ''6116'', ''6120'', ''6121'', ''6122'', ''6126'', ''6128'', ''6129'',
      ''7556'', ''7557'', ''7561'', ''7566'', ''7567'', ''7568'', ''7569'', ''7570'',
      ''8024'', ''8027'', ''8028'', ''8029'', ''8032'', ''8033'', ''8034'', ''8035'',
      ''9188'', ''9802'', ''9910'', ''9911'', ''9912'', ''9914'', ''9917'', ''9918'']"

definition in_otc_ranges :: "int \<Rightarrow> bool" where
  "in_otc_ranges code_num \<longleftrightarrow>
     (1500 \<le> code_num \<and> code_num \<le> 1999) \<or>
     (2500 \<le> code_num \<and> code_num \<le> 2999) \<or>
     (3000 \<le> code_num \<and> code_num \<le> 3999) \<or>
     (4000 \<le> code_num \<and> code_num \<le> 4999) \<or>
     (5200 \<le> code_num \<and> code_num \<le> 5999) \<or>
     (6100 \<le> code_num \<and> code_num \<le> 6999) \<or>
     (7500 \<le> code_num \<and> code_num \<le> 7999) \<or>
     (8000 \<le> code_num \<and> code_num \<le> 8999) \<or>
     (9100 \<le> code_num \<and> code_num \<le> 9999)"

text \<open>
  The body of the \<^verbatim>\<open>try\<close> block: \<^verbatim>\<open>int(stock_code)\<close> raises ValueError when the
  code is not a number. \<open>is_otc_stock\<close> is the method itself: its bare \<^verbatim>\<open>except\<close>
  turns every exception into \<open>False\<close>.
\<close>

definition is_otc_stock_body ::
  "(string \<Rightarrow> int option) \<Rightarrow> stock_entry list \<Rightarrow> string \<Rightarrow> py_error + bool" where
  "is_otc_stock_body int_of symbols_cache stock_code =
     (case cache_lookup symbols_cache stock_code of
        Some b \<Rightarrow> Inr b
      | None \<Rightarrow>
          (case int_of stock_code of
             None \<Rightarrow> Inl ValueError
           | Some code_num \<Rightarrow>
               if stock_code \<in> set known_otc_stocks then Inr True
               else if in_otc_ranges code_num then Inr True
               else Inr False))"

definition is_otc_stock ::
  "(string \<Rightarrow> int option) \<Rightarrow> stock_entry list \<Rightarrow> string \<Rightarrow> bool" where
  "is_otc_stock int_of symbols_cache stock_code =
     (case is_otc_stock_body int_of symbols_cache stock_code of
        Inl e \<Rightarrow> False
      | Inr b \<Rightarrow> b)"

subsection \<open>\<open>fetch_stock_data\<close>\<close>

text \<open>
  The four fetchers do network I/O; what each would return for the call is a field of
  \<open>upstream\<close>. The two exchange fetchers return a list or \<open>None\<close>, the generic
  fetcher a non-empty list or \<open>None\<close>, the index fetcher a data frame (its rows).
  \<open>fetch_stock_data\<close> returns the fetchers it called, in order, and its result: a data
  frame built from the exchange rows or the index frame, or whatever the generic fetcher
  returned.
\<close>

datatype fetcher = TwiiDirect | Tpex | Twse | YFinance

record 'r upstream =
  twii_direct_result :: "'r list"
  tpex_result :: "'r list option"
  twse_result :: "'r list option"
  yfinance_result :: "'r list option"

datatype 'r price_data = DataFrame "'r list" | RowList "'r list" | NoData

definition truthy :: "'r list option \<Rightarrow> bool" where
  "truthy result \<longleftrightarrow> (case result of None \<Rightarrow> False | Some rows \<Rightarrow> rows \<noteq> [])"

definition of_fallback :: "'r list option \<Rightarrow> 'r price_data" where
  "of_fallback result = (case result of None \<Rightarrow> NoData | Some rows \<Rightarrow> RowList rows)"

definition fetch_stock_data ::
  "(string \<Rightarrow> int option) \<Rightarrow> stock_entry list \<Rightarrow> 'r upstream \<Rightarrow> string
     \<Rightarrow> fetcher list \<times> 'r price_data" where
  "fetch_stock_data int_of symbols_cache up symb =
     (if symb = ''^TWII'' then ([TwiiDirect], DataFrame (twii_direct_result up))
      else
        let has_suffix = (contains symb ''.TW'' \<or> contains symb ''.TWO'');
            stock_code = (if has_suffix then split_on CHR ''.'' symb ! 0 else symb);
            market_suffix = (if has_suffix then Some (split_on CHR ''.'' symb ! 1) else None);
            otc = (market_suffix = Some ''TWO'' \<or> is_otc_stock int_of symbols_cache stock_code);
            primary = (if otc then Tpex else Twse);
            result = (if otc then tpex_result up else twse_result up)
        in if truthy result then ([primary], DataFrame (the result))
           else ([primary, YFinance], of_fallback (yfinance_result up)))"

section \<open>Calendar (\<open>datetime\<close>)\<close>

text \<open>
  Dates follow the proleptic Gregorian calendar of Python's \<open>datetime\<close>: a date is
  built by \<open>mk_date\<close>, which raises ValueError outside years 1 to 9999 or for a day the
  month does not have. \<open>toordinal\<close> and \<open>fromordinal\<close> number the days from
  0001-01-01 = 1, \<open>weekday\<close> is 0 on Monday, and \<open>isocalendar\<close> returns the ISO year,
  the ISO week number and the ISO weekday, computed as the standard library does.
\<close>

record date =
  year :: int
  month :: int
  day :: int

definition is_leap :: "int \<Rightarrow> bool" where
  "is_leap y \<longleftrightarrow> y mod 4 = 0 \<and> (y mod 100 \<noteq> 0 \<or> y mod 400 = 0)"

definition month_lengths :: "int list" where
  "month_lengths = [31, 28, 31, 30, 31, 30, 31, 31, 30, 31, 30, 31]"

definition month_offsets :: "int list" where
  "month_offsets = [0, 31, 59, 90, 120, 151, 181, 212, 243, 273, 304, 334]"

definition days_in_month :: "int \<Rightarrow> int \<Rightarrow> int" where
  "days_in_month y m = (if m = 2 \<and> is_leap y then 29 else month_lengths ! nat (m - 1))"

definition days_before_year :: "int \<Rightarrow> int" where
  "days_before_year y = (y - 1) * 365 + (y - 1) div 4 - (y - 1) div 100 + (y - 1) div 400"

definition days_before_month :: "int \<Rightarrow> int \<Rightarrow> int" where
  "days_before_month y m =
     month_offsets ! nat (m - 1) + (if 2 < m \<and> is_leap y then 1 else 0)"

definition mk_date :: "int \<Rightarrow> int \<Rightarrow> int \<Rightarrow> py_error + date" where
  "mk_date y m d =
     (if 1 \<le> y \<and> y \<le> 9999 \<and> 1 \<le> m \<and> m \<le> 12 \<and> 1 \<le> d \<and> d \<le> days_in_month y m
      then Inr \<lparr>year = y, month = m, day = d\<rparr>
      else Inl ValueError)"

definition date_le :: "date \<Rightarrow> date \<Rightarrow> bool" where
  "date_le a b \<longleftrightarrow>
     year a < year b \<or>
     (year a = year b \<and> (month a < month b \<or> (month a = month b \<and> day a \<le> day b)))"

definition toordinal :: "date \<Rightarrow> int" where
  "toordinal dt = days_before_year (year dt) + days_before_month (year dt) (month dt) + day dt"

definition fromordinal :: "int \<Rightarrow> date" where
  "fromordinal ord =
     (let n = ord - 1;
          n400 = n div 146097; n = n mod 146097;
          n100 = n div 36524; n = n mod 36524;
          n4 = n div 1461; n = n mod 1461;
          n1 = n div 365; n = n mod 365;
          y = n400 * 400 + 1 + n100 * 100 + n4 * 4 + n1
      in if n1 = 4 \<or> n100 = 4 then \<lparr>year = y - 1, month = 12, day = 31\<rparr>
         else
           let leapyear = (n1 = 3 \<and> (n4 \<noteq> 24 \<or> n100 = 3));
               m = (n + 50) div 32;
               preceding = month_offsets ! nat (m - 1) + (if 2 < m \<and> leapyear then 1 else 0)
           in if n < preceding
              then let m' = m - 1;
                       preceding' = preceding
                          - (month_lengths ! nat (m' - 1) + (if m' = 2 \<and> leapyear then 1 else 0))
                   in \<lparr>year = y, month = m', day = n - preceding' + 1\<rparr>
              else \<lparr>year = y, month = m, day = n - preceding + 1\<rparr>)"

text \<open>\<^verbatim>\<open>dt + timedelta(days=k)\<close>: OverflowError outside the range of dates.\<close>

definition add_days :: "date \<Rightarrow> int \<Rightarrow> py_error + date" where
  "add_days dt k =
     (let ord = toordinal dt + k
      in if 0 < ord \<and> ord \<le> 3652059 then Inr (fromordinal ord) else Inl OverflowError)"

definition weekday :: "date \<Rightarrow> int" where
  "weekday dt = (toordinal dt + 6) mod 7"

definition isoweek1monday :: "int \<Rightarrow> int" where
  "isoweek1monday y =
     (let firstday = days_before_year y + 1;
          firstweekday = (firstday + 6) mod 7;
          week1monday = firstday - firstweekday
      in if 3 < firstweekday then week1monday + 7 else week1monday)"

definition isocalendar :: "date \<Rightarrow> int \<times> int \<times> int" where
  "isocalendar dt =
     (let y = year dt;
          today = toordinal dt;
          week = (today - isoweek1monday y) div 7;
          wd = (today - isoweek1monday y) mod 7
      in if week < 0
         then (y - 1, (today - isoweek1monday (y - 1)) div 7 + 1,
               (today - isoweek1monday (y - 1)) mod 7 + 1)
         else if 52 \<le> week \<and> isoweek1monday (y + 1) \<le> today
         then (y + 1, 1, wd + 1)
         else (y, week + 1, wd + 1))"

definition iso_week :: "date \<Rightarrow> int" where
  "iso_week dt = fst (snd (isocalendar dt))"

text \<open>
  \<^verbatim>\<open>strftime('%Y-%m-%d')\<close> with the year written in four digits, and the parse of such a
  string back into a date (\<^verbatim>\<open>datetime.strptime(s, '%Y-%m-%d')\<close>, and
  \<^verbatim>\<open>pd.to_datetime\<close> on the strings the pipeline itself has formatted): a four-digit
  year and one- or two-digit month and day, ValueError otherwise.
\<close>

definition digit_char :: "int \<Rightarrow> char" where
  "digit_char n = ''0123456789'' ! nat n"

definition pad2 :: "int \<Rightarrow> string" where
  "pad2 n = [digit_char (n div 10 mod 10), digit_char (n mod 10)]"

definition pad4 :: "int \<Rightarrow> string" where
  "pad4 n = [digit_char (n div 1000 mod 10), digit_char (n div 100 mod 10),
             digit_char (n div 10 mod 10), digit_char (n mod 10)]"

definition strftime :: "date \<Rightarrow> string" where
  "strftime dt = pad4 (year dt) @ ''-'' @ pad2 (month dt) @ ''-'' @ pad2 (day dt)"

definition strptime :: "string \<Rightarrow> py_error + date" where
  "strptime s =
     (case split_on CHR ''-'' s of
        [ys, ms, ds] \<Rightarrow>
          (if length ys = 4 \<and> length ms \<in> {1, 2} \<and> length ds \<in> {1, 2}
           then (case (dec_nat ys, dec_nat ms, dec_nat ds) of
                   (Some y, Some m, Some d) \<Rightarrow> mk_date (int y) (int m) (int d)
                 | _ \<Rightarrow> Inl ValueError)
           else Inl ValueError)
      | _ \<Rightarrow> Inl ValueError)"
section \<open>Source fetchers\<close>

text \<open>
  A row of the list the fetchers return: the dict with the keys \<open>ticker\<close>, \<open>Date\<close>,
  \<open>Open\<close>, \<open>High\<close>, \<open>Low\<close>, \<open>Close\<close> and \<open>Volume\<close>.
\<close>

record price_row =
  ticker :: string
  Date :: string
  Open :: pyfloat
  High :: pyfloat
  Low :: pyfloat
  Close :: pyfloat
  Volume :: int

definition bind_err :: "py_error + 'a \<Rightarrow> ('a \<Rightarrow> py_error + 'b) \<Rightarrow> py_error + 'b" where
  "bind_err m f = (case m of Inl e \<Rightarrow> Inl e | Inr x \<Rightarrow> f x)"

definition item :: "'a list \<Rightarrow> nat \<Rightarrow> py_error + 'a" where
  "item xs i = (if i < length xs then Inr (xs ! i) else Inl IndexError)"

definition parsed :: "'a option \<Rightarrow> py_error + 'a" where
  "parsed r = (case r of None \<Rightarrow> Inl ValueError | Some x \<Rightarrow> Inr x)"

subsection \<open>\<open>fetch_twse_stock_data\<close>\<close>

text \<open>
  The expression \<^verbatim>\<open>int(row[i].replace(',', '')) if row[i] != '--' else 0\<close> and its
  \<^verbatim>\<open>float\<close> twin: the sentinel gives zero, every other cell has its commas removed
  and is parsed.
\<close>

definition int_cell :: "(string \<Rightarrow> int option) \<Rightarrow> string list \<Rightarrow> nat \<Rightarrow> py_error + int" where
  "int_cell int_of row i =
     bind_err (item row i) (\<lambda>c.
       if c \<noteq> ''--'' then parsed (int_of (remove_char CHR '','' c)) else Inr 0)"

definition float_cell ::
  "(string \<Rightarrow> pyfloat option) \<Rightarrow> string list \<Rightarrow> nat \<Rightarrow> py_error + pyfloat" where
  "float_cell float_of row i =
     bind_err (item row i) (\<lambda>c.
       if c \<noteq> ''--'' then parsed (float_of (remove_char CHR '','' c)) else Inr (Fin 0))"

text \<open>
  The date of a row, from the three parts of its first cell: the year of the local
  era plus 1911, the month and the day, made into a date.
\<close>

definition roc_to_date :: "(string \<Rightarrow> int option) \<Rightarrow> string list \<Rightarrow> py_error + date" where
  "roc_to_date int_of date_parts =
     bind_err (parsed (int_of (date_parts ! 0))) (\<lambda>y.
     bind_err (parsed (int_of (date_parts ! 1))) (\<lambda>month_val.
     bind_err (parsed (int_of (date_parts ! 2))) (\<lambda>day_val.
       mk_date (y + 1911) month_val day_val)))"

text \<open>
  What the loop body does with one row of a month's response: it appends a price row,
  skips the row silently (a date that does not have three parts, a date outside the
  window), skips it with the price warning, or the \<^verbatim>\<open>except (ValueError, IndexError)\<close>
  clause skips it (\<open>Inl\<close>).
\<close>

datatype row_outcome = Appended price_row | NotADate | OutOfWindow | PriceWarning

definition twse_row ::
  "(string \<Rightarrow> int option) \<Rightarrow> (string \<Rightarrow> pyfloat option) \<Rightarrow> string \<Rightarrow> date \<Rightarrow> date
     \<Rightarrow> string list \<Rightarrow> py_error + row_outcome" where
  "twse_row int_of float_of stock_code start_dt end_dt row =
     bind_err (item row 0) (\<lambda>cell0.
       let date_parts = split_on CHR ''/'' cell0
       in if length date_parts = 3 then
            bind_err (roc_to_date int_of date_parts) (\<lambda>trade_date.
              if date_le start_dt trade_date \<and> date_le trade_date end_dt then
                bind_err (int_cell int_of row 1) (\<lambda>vol.
                bind_err (float_cell float_of row 3) (\<lambda>open_price.
                bind_err (float_cell float_of row 4) (\<lambda>high_price.
                bind_err (float_cell float_of row 5) (\<lambda>low_price.
                bind_err (float_cell float_of row 6) (\<lambda>close_price.
                  if flt open_price (Fin 30000) \<and> flt high_price (Fin 30000) \<and>
                     flt low_price (Fin 30000) \<and> flt close_price (Fin 30000)
                  then Inr (Appended
                         \<lparr>ticker = stock_code @ ''.TW'',
                          Date = strftime trade_date,
                          Open = py_round 2 open_price,
                          High = py_round 2 high_price,
                          Low = py_round 2 low_price,
                          Close = py_round 2 close_price,
                          Volume = vol\<rparr>)
                  else Inr PriceWarning)))))
              else Inr OutOfWindow)
          else Inr NotADate)"

definition twse_rows ::
  "(string \<Rightarrow> int option) \<Rightarrow> (string \<Rightarrow> pyfloat option) \<Rightarrow> string \<Rightarrow> date \<Rightarrow> date
     \<Rightarrow> string list list \<Rightarrow> price_row list" where
  "twse_rows int_of float_of stock_code start_dt end_dt rows =
     concat (map (\<lambda>row. case twse_row int_of float_of stock_code start_dt end_dt row of
                           Inr (Appended r) \<Rightarrow> [r]
                         | _ \<Rightarrow> []) rows)"

text \<open>
  The month loop. \<open>http y m\<close> is the \<open>data\<close> list of the response for the month when the
  request (with its retries) ended with status 200, \<open>stat\<close> OK and a non-empty list,
  and \<open>None\<close> otherwise. The loop starts at \<open>start_dt\<close> and moves to the same day of
  the next month with \<^verbatim>\<open>replace\<close>, which raises ValueError when the next month does not
  have that day; the exception leaves the function through its outer \<^verbatim>\<open>except\<close>.
\<close>

definition next_month :: "date \<Rightarrow> py_error + date" where
  "next_month current_date =
     (if month current_date = 12
      then mk_date (year current_date + 1) 1 (day current_date)
      else mk_date (year current_date) (month current_date + 1) (day current_date))"

function twse_months ::
  "(string \<Rightarrow> int option) \<Rightarrow> (string \<Rightarrow> pyfloat option) \<Rightarrow> (int \<Rightarrow> int \<Rightarrow> string list list option)
     \<Rightarrow> string \<Rightarrow> date \<Rightarrow> date \<Rightarrow> date \<Rightarrow> py_error + price_row list" where
  "twse_months int_of float_of http stock_code start_dt end_dt current_date =
     (if date_le current_date end_dt then
        (let got = (case http (year current_date) (month current_date) of
                      None \<Rightarrow> []
                    | Some rows \<Rightarrow> twse_rows int_of float_of stock_code start_dt end_dt rows)
         in case next_month current_date of
              Inl e \<Rightarrow> Inl e
            | Inr nxt \<Rightarrow>
                (case twse_months int_of float_of http stock_code start_dt end_dt nxt of
                   Inl e \<Rightarrow> Inl e
                 | Inr later \<Rightarrow> Inr (got @ later)))
      else Inr [])"
  by pat_completeness auto
termination
proof (relation "measure (\<lambda>(int_of, float_of, http, stock_code, start_dt, end_dt, cur).
                   nat (12 * (year end_dt - year cur) + 13 - month cur))")
  show "wf (measure (\<lambda>(int_of, float_of, http, stock_code, start_dt, end_dt, cur).
                   nat (12 * (year end_dt - year cur) + 13 - month cur)))"
    by simp
next
  fix int_of :: "string \<Rightarrow> int option" and float_of :: "string \<Rightarrow> pyfloat option"
    and http :: "int \<Rightarrow> int \<Rightarrow> string list list option" and stock_code :: string
    and start_dt end_dt current_date :: date and got :: "price_row list" and nxt :: date
  assume le: "date_le current_date end_dt" and nm: "next_month current_date = Inr nxt"
  have y: "year current_date \<le> year end_dt"
    using le by (auto simp: date_le_def)
  have "(month current_date = 12 \<and> year nxt = year current_date + 1 \<and> month nxt = 1) \<or>
        (month current_date \<noteq> 12 \<and> year nxt = year current_date \<and>
         month nxt = month current_date + 1 \<and> month nxt \<le> 12)"
    using nm by (auto simp: next_month_def mk_date_def split: if_splits)
  then have "nat (12 * (year end_dt - year nxt) + 13 - month nxt)
               < nat (12 * (year end_dt - year current_date) + 13 - month current_date)"
    using y by auto
  then show "((int_of, float_of, http, stock_code, start_dt, end_dt, nxt),
              (int_of, float_of, http, stock_code, start_dt, end_dt, current_date))
               \<in> measure (\<lambda>(int_of, float_of, http, stock_code, start_dt, end_dt, cur).
                   nat (12 * (year end_dt - year cur) + 13 - month cur))"
    by simp
qed

declare twse_months.simps [simp del]

text \<open>
  The fetcher: both bounds are parsed, the months are fetched, the rows are sorted by
  their \<open>Date\<close> string (a stable sort, as Python's). Every exception gives \<open>None\<close>.
\<close>

definition fetch_twse_stock_data ::
  "(string \<Rightarrow> int option) \<Rightarrow> (string \<Rightarrow> pyfloat option) \<Rightarrow> (int \<Rightarrow> int \<Rightarrow> string list list option)
     \<Rightarrow> string \<Rightarrow> string \<Rightarrow> string \<Rightarrow> price_row list option" where
  "fetch_twse_stock_data int_of float_of http stock_code start_date end_date =
     (case strptime start_date of
        Inl e \<Rightarrow> None
      | Inr start_dt \<Rightarrow>
          (case strptime end_date of
             Inl e \<Rightarrow> None
           | Inr end_dt \<Rightarrow>
               (case twse_months int_of float_of http stock_code start_dt end_dt start_dt of
                  Inl e \<Rightarrow> None
                | Inr result \<Rightarrow> Some (sort_key Date result))))"

subsection \<open>\<open>fetch_yfinance_data\<close>: the row loop\<close>




section \<open>The batch update (\<open>update_stocks\<close>)\<close>

subsection \<open>The incremental fetch window\<close>

text \<open>
  \<open>start_date\<close> is the string of the request, \<open>end_date\<close> is a string or \<open>None\<close>, and
  \<open>latest_dt\<close> is the entry of the symbol in \<open>latest_price_date_map\<close>: the greatest
  stored date, or \<open>None\<close> when the symbol has no stored row. The comparisons are those
  of the source, on the \<open>YYYY-MM-DD\<close> strings. An exception of the date arithmetic is
  swallowed and leaves the requested start.
\<close>

definition effective_start_date :: "string \<Rightarrow> string option \<Rightarrow> date option \<Rightarrow> string" where
  "effective_start_date start_date end_date latest_dt =
     (case latest_dt of
        None \<Rightarrow> start_date
      | Some dt \<Rightarrow>
          (case add_days dt 1 of
             Inl e \<Rightarrow> start_date
           | Inr nd \<Rightarrow>
               let next_day = strftime nd
               in if end_date = None \<or>
                     next_day \<le> (case end_date of
                                    None \<Rightarrow> next_day
                                  | Some e \<Rightarrow> if e = [] then next_day else e)
                  then (if start_date < next_day then next_day else start_date)
                  else start_date))"

subsection \<open>Writing the price rows\<close>

text \<open>
  A tuple of \<open>values\<close>, and the table \<open>stock_prices\<close> as a map from its unique key
  (symbol, date) to the five other columns. Dates are the \<open>YYYY-MM-DD\<close> strings the
  fetchers produce, which the database maps one-to-one to its dates.
\<close>

record price_value =
  v_symbol :: string
  v_date :: string
  v_open :: "pyfloat option"
  v_high :: "pyfloat option"
  v_low :: "pyfloat option"
  v_close :: "pyfloat option"
  v_volume :: "int option"

type_synonym price_cols =
  "pyfloat option \<times> pyfloat option \<times> pyfloat option \<times> pyfloat option \<times> int option"

type_synonym price_table = "string \<times> string \<Rightarrow> price_cols option"

definition key_of :: "price_value \<Rightarrow> string \<times> string" where
  "key_of v = (v_symbol v, v_date v)"

definition cols_of :: "price_value \<Rightarrow> price_cols" where
  "cols_of v = (v_open v, v_high v, v_low v, v_close v, v_volume v)"

definition upsert_row :: "price_table \<Rightarrow> price_value \<Rightarrow> price_table" where
  "upsert_row tbl v = tbl(key_of v \<mapsto> cols_of v)"

text \<open>
  One \<^verbatim>\<open>INSERT ... VALUES ... ON CONFLICT (symbol, date) DO UPDATE SET ...\<close> statement:
  every row is inserted, or overwrites the five columns of the stored row with its key.
  PostgreSQL rejects the statement when two of its rows have the same key.
\<close>

definition insert_on_conflict_update ::
  "price_table \<Rightarrow> price_value list \<Rightarrow> py_error + price_table" where
  "insert_on_conflict_update tbl vs =
     (if distinct (map key_of vs) then Inr (foldl upsert_row tbl vs) else Inl DatabaseError)"

text \<open>\<^verbatim>\<open>execute_values\<close> sends one statement for every page of \<open>page_size\<close> rows.\<close>

function pages :: "nat \<Rightarrow> 'a list \<Rightarrow> 'a list list" where
  "pages page_size xs =
     (if page_size = 0 \<or> xs = [] then []
      else take page_size xs # pages page_size (drop page_size xs))"
  by pat_completeness auto
termination
  by (relation "measure (\<lambda>(page_size, xs). length xs)") auto

declare pages.simps [simp del]

fun execute_pages :: "price_table \<Rightarrow> price_value list list \<Rightarrow> py_error + price_table" where
  "execute_pages tbl [] = Inr tbl"
| "execute_pages tbl (p # ps) =
     (case insert_on_conflict_update tbl p of
        Inl e \<Rightarrow> Inl e
      | Inr tbl' \<Rightarrow> execute_pages tbl' ps)"

definition execute_values :: "price_table \<Rightarrow> price_value list \<Rightarrow> nat \<Rightarrow> py_error + price_table" where
  "execute_values tbl vs page_size = execute_pages tbl (pages page_size vs)"

text \<open>
  The query \<^verbatim>\<open>SELECT date FROM stock_prices WHERE symbol = %s AND date IN (...)\<close>
  before the write: the stored dates of the symbol among those of the batch, collected
  in a set.
\<close>

definition existing_dates :: "price_table \<Rightarrow> string \<Rightarrow> string list \<Rightarrow> string list" where
  "existing_dates tbl symb date_list =
     remdups (filter (\<lambda>d. tbl (symb, d) \<noteq> None) date_list)"

text \<open>
  The block that writes \<open>values\<close> (never empty where the block runs) and fills the
  result of the symbol: the table after the commit, \<open>price_records\<close> and
  \<open>duplicate_records\<close>. The connection is not in autocommit mode: when a statement
  fails, the smaller batches of the \<^verbatim>\<open>except\<close> branch run in the aborted transaction
  and fail as well, so the exception reaches the handler of the symbol and nothing is
  committed. A failure of the existence query itself (which would leave the count 0)
  is not modelled.
\<close>

record price_result =
  table_after :: price_table
  price_records :: nat
  duplicate_records :: nat

definition store_prices ::
  "price_table \<Rightarrow> string \<Rightarrow> price_value list \<Rightarrow> py_error + price_result" where
  "store_prices tbl symb vs =
     (let date_list = map v_date vs;
          duplicate_count = length (existing_dates tbl symb date_list)
      in case execute_values tbl vs 1000 of
           Inl e \<Rightarrow> Inl e
         | Inr tbl' \<Rightarrow>
             Inr \<lparr>table_after = tbl',
                  price_records = length vs - duplicate_count,
                  duplicate_records = duplicate_count\<rparr>)"

text \<open>
  \<open>upsert_prices\<close> of \<open>storage.py\<close>: one statement for all rows, the number of
  affected rows as result (every row of such a statement is inserted or updated).
\<close>

definition upsert_prices :: "price_table \<Rightarrow> price_value list \<Rightarrow> py_error + price_table \<times> nat" where
  "upsert_prices tbl rows =
     (if rows = [] then Inr (tbl, 0)
      else (case insert_on_conflict_update tbl rows of
              Inl e \<Rightarrow> Inl e
            | Inr tbl' \<Rightarrow> Inr (tbl', length rows)))"
section \<open>The return calculator (\<open>calculate_returns\<close>)\<close>

text \<open>
  An element of the list \<open>calculate_returns\<close> returns: the dict with the keys
  \<open>ticker\<close>, \<open>Date\<close>, \<open>frequency\<close>, \<open>return\<close> and \<open>cumulative_return\<close>.
\<close>

record return_record =
  ret_ticker :: string
  ret_Date :: string
  ret_frequency :: string
  ret_return :: pyfloat
  ret_cumulative_return :: pyfloat

subsection \<open>Series operations of pandas\<close>

text \<open>
  \<open>shift1\<close> is \<^verbatim>\<open>shift(1)\<close>, \<open>ffill\<close> the forward fill, \<open>pct_change\<close> is
  \<^verbatim>\<open>pct_change(fill_method=None)\<close>, that is \<^verbatim>\<open>data / data.shift(1) - 1\<close>, and
  \<open>pct_change_pad\<close> is \<^verbatim>\<open>pct_change()\<close> as pandas 2 computes it, on the forward-filled
  data (on a series without NaN both agree). \<open>cumprod\<close> skips NaN entries: they count
  as 1 in the running product and are NaN in the result. \<open>last_valid\<close> is the
  aggregation \<^verbatim>\<open>last()\<close> of a group: its last value that is not NaN.
\<close>

definition shift1 :: "pyfloat list \<Rightarrow> pyfloat list" where
  "shift1 xs = (if xs = [] then [] else NaN # butlast xs)"

fun ffill_from :: "pyfloat \<Rightarrow> pyfloat list \<Rightarrow> pyfloat list" where
  "ffill_from prev [] = []"
| "ffill_from prev (x # xs) = (if isnan x then prev # ffill_from prev xs else x # ffill_from x xs)"

definition ffill :: "pyfloat list \<Rightarrow> pyfloat list" where
  "ffill xs = ffill_from NaN xs"

definition pct_change :: "pyfloat list \<Rightarrow> pyfloat list" where
  "pct_change xs = map2 (\<lambda>c p. fsub (fdiv c p) (Fin 1)) xs (shift1 xs)"

definition pct_change_pad :: "pyfloat list \<Rightarrow> pyfloat list" where
  "pct_change_pad xs = pct_change (ffill xs)"

fun cumprod_from :: "pyfloat \<Rightarrow> pyfloat list \<Rightarrow> pyfloat list" where
  "cumprod_from acc [] = []"
| "cumprod_from acc (x # xs) =
     (if isnan x then NaN # cumprod_from (fmul acc (Fin 1)) xs
      else fmul acc x # cumprod_from (fmul acc x) xs)"

definition cumprod :: "pyfloat list \<Rightarrow> pyfloat list" where
  "cumprod xs = cumprod_from (Fin 1) xs"

definition cumulative :: "pyfloat list \<Rightarrow> pyfloat list" where
  "cumulative rets = map (\<lambda>x. fsub x (Fin 1)) (cumprod (map (fadd (Fin 1)) rets))"

definition last_valid :: "pyfloat list \<Rightarrow> pyfloat" where
  "last_valid xs = foldl (\<lambda>acc x. if isnan x then acc else x) NaN xs"

subsection \<open>The frame\<close>

text \<open>
  The frame built from the price rows: the \<open>Date\<close> column parsed by
  \<^verbatim>\<open>pd.to_datetime\<close> (which raises on a string that is no date) and the rows sorted
  by it. The sort is modelled as a stable one; rows of one date keep their order.
\<close>

fun parse_dates :: "price_row list \<Rightarrow> py_error + (date \<times> price_row) list" where
  "parse_dates [] = Inr []"
| "parse_dates (r # rs) =
     bind_err (strptime (Date r)) (\<lambda>d.
     bind_err (parse_dates rs) (\<lambda>ds. Inr ((d, r) # ds)))"

definition sort_values :: "(date \<times> price_row) list \<Rightarrow> (date \<times> price_row) list" where
  "sort_values df = sort_key (\<lambda>p. toordinal (fst p)) df"

subsection \<open>Daily returns\<close>

text \<open>
  The two columns added to the frame, and the loop over its rows: a row whose return
  is NaN gives no record; a cumulative return that is NaN is written as 0.0.
\<close>

definition daily_columns :: "pyfloat list \<Rightarrow> pyfloat list \<times> pyfloat list" where
  "daily_columns closes =
     (let rets = pct_change_pad closes in (rets, cumulative rets))"

definition daily_record :: "date \<times> price_row \<Rightarrow> pyfloat \<Rightarrow> pyfloat \<Rightarrow> return_record" where
  "daily_record row ret cum =
     \<lparr>ret_ticker = ticker (snd row),
      ret_Date = strftime (fst row),
      ret_frequency = ''daily'',
      ret_return = py_round 6 ret,
      ret_cumulative_return = (if \<not> isnan cum then py_round 6 cum else Fin 0)\<rparr>"

definition daily_returns :: "(date \<times> price_row) list \<Rightarrow> return_record list" where
  "daily_returns df =
     (let cols = daily_columns (map (\<lambda>p. Close (snd p)) df)
      in map (\<lambda>(row, ret, cum). daily_record row ret cum)
           (filter (\<lambda>(row, ret, cum). \<not> isnan ret) (zip df (zip (fst cols) (snd cols)))))"

subsection \<open>Weekly and monthly returns\<close>

text \<open>
  \<^verbatim>\<open>resample('W')\<close> groups the rows by the week that ends on a Sunday and labels the
  group with that Sunday; \<^verbatim>\<open>resample('ME')\<close> groups by calendar month and labels the
  group with the last day of the month. A group is identified by a number: the ordinal
  of the Sunday, or the count of months \<open>12 * year + month - 1\<close>. Every period from
  that of the first row to that of the last row has a group; one without rows has the
  value NaN.
\<close>

definition week_bin :: "date \<Rightarrow> int" where
  "week_bin d = toordinal d + (6 - weekday d)"

definition week_label :: "int \<Rightarrow> date" where
  "week_label b = fromordinal b"

definition month_bin :: "date \<Rightarrow> int" where
  "month_bin d = 12 * year d + month d - 1"

definition month_label :: "int \<Rightarrow> date" where
  "month_label b =
     \<lparr>year = b div 12, month = b mod 12 + 1, day = days_in_month (b div 12) (b mod 12 + 1)\<rparr>"

definition resample_last ::
  "(date \<Rightarrow> int) \<Rightarrow> int \<Rightarrow> (date \<times> price_row) list \<Rightarrow> (int \<times> pyfloat) list" where
  "resample_last bin step df =
     (let lo = bin (fst (hd df)); hi = bin (fst (last df))
      in map (\<lambda>k. (lo + step * int k,
                    last_valid (map (\<lambda>p. Close (snd p))
                                 (filter (\<lambda>p. bin (fst p) = lo + step * int k) df))))
           [0 ..< nat ((hi - lo) div step) + 1])"

text \<open>
  The returns of the periods: the change from the group before, the periods with a NaN
  change dropped, and the cumulative product over the periods that are left.
\<close>

definition period_returns ::
  "(int \<Rightarrow> date) \<Rightarrow> string \<Rightarrow> string \<Rightarrow> (int \<times> pyfloat) list \<Rightarrow> return_record list" where
  "period_returns label freq tick groups =
     (let kept = filter (\<lambda>(b, ret). \<not> isnan ret)
                   (zip (map fst groups) (pct_change (map snd groups)));
          cum = cumulative (map snd kept)
      in map (\<lambda>((b, ret), c).
                \<lparr>ret_ticker = tick,
                 ret_Date = strftime (label b),
                 ret_frequency = freq,
                 ret_return = py_round 6 ret,
                 ret_cumulative_return = py_round 6 c\<rparr>)
           (zip kept cum))"

definition weekly_returns :: "(date \<times> price_row) list \<Rightarrow> return_record list" where
  "weekly_returns df =
     period_returns week_label ''weekly'' (ticker (snd (hd df))) (resample_last week_bin 7 df)"

definition monthly_returns :: "(date \<times> price_row) list \<Rightarrow> return_record list" where
  "monthly_returns df =
     period_returns month_label ''monthly'' (ticker (snd (hd df))) (resample_last month_bin 1 df)"

subsection \<open>\<open>calculate_returns\<close>\<close>

definition calculate_returns :: "price_row list \<Rightarrow> string \<Rightarrow> py_error + return_record list" where
  "calculate_returns price_data frequency =
     (if price_data = [] then Inr []
      else bind_err (parse_dates price_data) (\<lambda>dated.
        let df = sort_values dated
        in if length df < 2 then Inr []
           else if frequency = ''daily'' then Inr (daily_returns df)
           else if frequency = ''weekly'' then Inr (weekly_returns df)
           else if frequency = ''monthly'' then Inr (monthly_returns df)
           else Inr []))"

section \<open>The return rows of the batch update\<close>

text \<open>
  The scan of the weekly list for a daily date: the first entry whose date has the
  same ISO week number and the same calendar year as the daily date gives the weekly
  return; without such an entry it stays \<open>None\<close>. The scan of the monthly list compares
  year and month. The dates are parsed again from their strings at every comparison.
\<close>

fun find_weekly :: "return_record list \<Rightarrow> string \<Rightarrow> py_error + pyfloat option" where
  "find_weekly [] date_str = Inr None"
| "find_weekly (wr # rest) date_str =
     bind_err (strptime (ret_Date wr)) (\<lambda>week_end_date.
     bind_err (strptime date_str) (\<lambda>daily_date.
       if iso_week daily_date = iso_week week_end_date \<and> year daily_date = year week_end_date
       then Inr (Some (ret_return wr))
       else find_weekly rest date_str))"

fun find_monthly :: "return_record list \<Rightarrow> string \<Rightarrow> py_error + pyfloat option" where
  "find_monthly [] date_str = Inr None"
| "find_monthly (mr # rest) date_str =
     bind_err (strptime (ret_Date mr)) (\<lambda>month_end_date.
     bind_err (strptime date_str) (\<lambda>daily_date.
       if year daily_date = year month_end_date \<and> month daily_date = month month_end_date
       then Inr (Some (ret_return mr))
       else find_monthly rest date_str))"

text \<open>
  \<^verbatim>\<open>if v is not None and (math.isinf(v) or math.isnan(v)): v = None\<close>
\<close>

definition coerce_null :: "pyfloat option \<Rightarrow> pyfloat option" where
  "coerce_null v =
     (case v of
        None \<Rightarrow> None
      | Some x \<Rightarrow> if isinf x \<or> isnan x then None else Some x)"

definition finite_or_null :: "pyfloat option \<Rightarrow> bool" where
  "finite_or_null v = (case v of None \<Rightarrow> True | Some x \<Rightarrow> \<not> isinf x \<and> \<not> isnan x)"

text \<open>
  The tuple the loop body builds for a daily record, from the values its variables
  hold before the append; an exception in the body skips the record.
\<close>

record return_values_row =
  rv_symbol :: string
  rv_date :: string
  rv_daily_return :: "pyfloat option"
  rv_weekly_return :: "pyfloat option"
  rv_monthly_return :: "pyfloat option"
  rv_cumulative_return :: "pyfloat option"

definition return_tuple ::
  "string \<Rightarrow> return_record list \<Rightarrow> return_record list \<Rightarrow> return_record
     \<Rightarrow> py_error + return_values_row" where
  "return_tuple symb weeklies monthlies rr =
     bind_err (find_weekly weeklies (ret_Date rr)) (\<lambda>weekly_return.
     bind_err (find_monthly monthlies (ret_Date rr)) (\<lambda>monthly_return.
       Inr \<lparr>rv_symbol = symb,
            rv_date = ret_Date rr,
            rv_daily_return = coerce_null (Some (ret_return rr)),
            rv_weekly_return = coerce_null weekly_return,
            rv_monthly_return = coerce_null monthly_return,
            rv_cumulative_return = coerce_null (Some (ret_cumulative_return rr))\<rparr>))"

definition return_tuples ::
  "string \<Rightarrow> return_record list \<Rightarrow> return_record list \<Rightarrow> return_record list
     \<Rightarrow> return_values_row list" where
  "return_tuples symb weeklies monthlies dailies =
     concat (map (\<lambda>rr. case return_tuple symb weeklies monthlies rr of
                          Inl e \<Rightarrow> []
                        | Inr t \<Rightarrow> [t]) dailies)"

text \<open>
  The tuples of a symbol, from its price rows: the three calls of \<open>calculate_returns\<close>
  and the loop over the daily records. The block runs for more than one price row.
\<close>

definition symbol_return_tuples :: "string \<Rightarrow> price_row list \<Rightarrow> py_error + return_values_row list" where
  "symbol_return_tuples symb price_data =
     (if length price_data > 1 then
        bind_err (calculate_returns price_data ''daily'') (\<lambda>dailies.
        bind_err (calculate_returns price_data ''weekly'') (\<lambda>weeklies.
        bind_err (calculate_returns price_data ''monthly'') (\<lambda>monthlies.
          Inr (return_tuples symb weeklies monthlies dailies))))
      else Inr [])"

text \<open>
  The list the tuples are appended to, \<open>return_values\<close>, is bound nowhere in the module:
  the append raises NameError for every daily record (the handler in the loop skips the
  record), and the test of \<open>return_values\<close> after the loop raises it again, which ends
  the handling of the symbol with an entry in \<open>errors\<close>. The statement that writes
  \<open>stock_returns\<close> is never reached: the block leaves the table as it is whenever there
  is a daily record.
\<close>

definition store_returns ::
  "'t \<Rightarrow> string \<Rightarrow> return_record list \<Rightarrow> return_record list \<Rightarrow> return_record list
     \<Rightarrow> py_error + 't" where
  "store_returns tbl symb weeklies monthlies dailies =
     (if dailies = [] then Inr tbl else Inl NameError)"
section \<open>Evaluation rules\<close>

lemmas calendar_simps =
  toordinal_def days_before_year_def days_before_month_def month_offsets_def
  month_lengths_def is_leap_def fromordinal_def Let_def weekday_def isocalendar_def
  isoweek1monday_def iso_week_def mk_date_def days_in_month_def add_days_def

lemmas strftime_simps = strftime_def pad2_def pad4_def digit_char_def

lemmas parse_simps = dec_int_def dec_nat_def dec_float_def is_digit_def digit_val_def

lemmas round_simps = round_rat_def round_half_even_def

lemma bind_err_Inr_iff:
  "bind_err m f = Inr y \<longleftrightarrow> (\<exists>x. m = Inr x \<and> f x = Inr y)"
  by (cases m) (simp_all add: bind_err_def)

lemma bind_err_simps:
  "bind_err (Inr x) f = f x" "bind_err (Inl e) f = Inl e"
  by (simp_all add: bind_err_def)

section \<open>Routing theorems\<close>

lemma split_on_nonempty: "split_on sep s \<noteq> []"
  by (induction s) (auto split: list.splits)

lemma known_otc_in_ranges:
  "list_all (\<lambda>s. case dec_int s of None \<Rightarrow> False | Some n \<Rightarrow> in_otc_ranges n) known_otc_stocks"
  by (simp add: known_otc_stocks_def dec_int_def dec_nat_def is_digit_def digit_val_def
      in_otc_ranges_def)

lemma dec_int_2330: "dec_int ''2330'' = Some 2330"
  by (simp add: dec_int_def dec_nat_def is_digit_def digit_val_def)

text \<open>
  C9. The index symbol \<open>^TWII\<close> is served by the direct index call alone. A symbol
  without \<open>.TW\<close>/\<open>.TWO\<close> suffix and without cache entry is classified by the code
  heuristic (the list of known codes and the numeric ranges), and exactly one exchange
  fetcher is called first, the generic fetcher after it only when the exchange fetcher
  returned nothing. Code \<open>2330\<close> is outside the list and the ranges: it goes to the
  listed-market fetcher first.
\<close>

theorem fetch_stock_data_routing:
  "fetch_stock_data int_of symbols_cache up ''^TWII''
     = ([TwiiDirect], DataFrame (twii_direct_result up)) \<and>
   (symb \<noteq> ''^TWII'' \<and> \<not> contains symb ''.TW'' \<and> \<not> contains symb ''.TWO'' \<and>
    cache_lookup symbols_cache symb = None
      \<longrightarrow> is_otc_stock int_of symbols_cache symb
            = (case int_of symb of
                 None \<Rightarrow> False
               | Some n \<Rightarrow> symb \<in> set known_otc_stocks \<or> in_otc_ranges n) \<and>
          fst (fetch_stock_data int_of symbols_cache up symb)
            = (if is_otc_stock int_of symbols_cache symb then Tpex else Twse)
              # (if truthy (if is_otc_stock int_of symbols_cache symb
                            then tpex_result up else twse_result up)
                 then [] else [YFinance])) \<and>
   (cache_lookup symbols_cache ''2330'' = None \<and> int_of ''2330'' = Some 2330
      \<longrightarrow> \<not> is_otc_stock int_of symbols_cache ''2330'' \<and>
          fetch_stock_data int_of symbols_cache up ''2330''
            = (if truthy (twse_result up)
               then ([Twse], DataFrame (the (twse_result up)))
               else ([Twse, YFinance], of_fallback (yfinance_result up))))"
proof (intro conjI impI)
  show "fetch_stock_data int_of symbols_cache up ''^TWII''
          = ([TwiiDirect], DataFrame (twii_direct_result up))"
    by (simp add: fetch_stock_data_def)
next
  assume a: "symb \<noteq> ''^TWII'' \<and> \<not> contains symb ''.TW'' \<and> \<not> contains symb ''.TWO'' \<and>
             cache_lookup symbols_cache symb = None"
  show "is_otc_stock int_of symbols_cache symb
          = (case int_of symb of
               None \<Rightarrow> False
             | Some n \<Rightarrow> symb \<in> set known_otc_stocks \<or> in_otc_ranges n)"
    using a by (simp add: is_otc_stock_def is_otc_stock_body_def split: option.splits)
  show "fst (fetch_stock_data int_of symbols_cache up symb)
          = (if is_otc_stock int_of symbols_cache symb then Tpex else Twse)
            # (if truthy (if is_otc_stock int_of symbols_cache symb
                          then tpex_result up else twse_result up)
               then [] else [YFinance])"
    using a by (simp add: fetch_stock_data_def Let_def)
next
  assume a: "cache_lookup symbols_cache ''2330'' = None \<and> int_of ''2330'' = Some 2330"
  have k: "''2330'' \<notin> set known_otc_stocks"
    by (simp add: known_otc_stocks_def)
  show n: "\<not> is_otc_stock int_of symbols_cache ''2330''"
    using a k by (simp add: is_otc_stock_def is_otc_stock_body_def in_otc_ranges_def)
  have s: "\<not> contains ''2330'' ''.TW'' \<and> \<not> contains ''2330'' ''.TWO''"
    by simp
  show "fetch_stock_data int_of symbols_cache up ''2330''
          = (if truthy (twse_result up)
             then ([Twse], DataFrame (the (twse_result up)))
             else ([Twse, YFinance], of_fallback (yfinance_result up)))"
    using n s by (simp add: fetch_stock_data_def Let_def)
qed

theorem fetch_stock_data_routing_witness:
  "fetch_stock_data dec_int []
     \<lparr>twii_direct_result = [7::nat], tpex_result = Some [5], twse_result = Some [],
      yfinance_result = Some [3]\<rparr> ''^TWII'' = ([TwiiDirect], DataFrame [7]) \<and>
   \<not> is_otc_stock dec_int [] ''2330'' \<and>
   fetch_stock_data dec_int []
     \<lparr>twii_direct_result = [7::nat], tpex_result = Some [5], twse_result = Some [],
      yfinance_result = Some [3]\<rparr> ''2330'' = ([Twse, YFinance], RowList [3]) \<and>
   fetch_stock_data dec_int []
     \<lparr>twii_direct_result = [7::nat], tpex_result = Some [5], twse_result = Some [1, 2],
      yfinance_result = Some [3]\<rparr> ''2330'' = ([Twse], DataFrame [1, 2])"
proof -
  have c: "cache_lookup [] ''2330'' = None \<and> dec_int ''2330'' = Some 2330"
    by (simp add: dec_int_2330)
  show ?thesis
    using c
      fetch_stock_data_routing [of dec_int "[]"
        "\<lparr>twii_direct_result = [7::nat], tpex_result = Some [5], twse_result = Some [],
          yfinance_result = Some [3]\<rparr>" "''2330''"]
      fetch_stock_data_routing [of dec_int "[]"
        "\<lparr>twii_direct_result = [7::nat], tpex_result = Some [5], twse_result = Some [1, 2],
          yfinance_result = Some [3]\<rparr>" "''2330''"]
    by (simp add: truthy_def of_fallback_def)
qed

text \<open>
  C10. \<open>is_otc_stock\<close> never raises: whenever its body raises, the method returns
  \<open>False\<close>; in particular a code that has no cache entry and that \<^verbatim>\<open>int()\<close> rejects
  is classified as not over-the-counter, and a symbol without suffix carrying such a
  code is routed to the listed-market fetcher.
\<close>

theorem is_otc_stock_total:
  "(is_otc_stock_body int_of symbols_cache stock_code = Inl e
      \<longrightarrow> is_otc_stock int_of symbols_cache stock_code = False) \<and>
   (is_otc_stock_body int_of symbols_cache stock_code = Inr b
      \<longrightarrow> is_otc_stock int_of symbols_cache stock_code = b) \<and>
   (cache_lookup symbols_cache stock_code = None \<and> int_of stock_code = None
      \<longrightarrow> is_otc_stock_body int_of symbols_cache stock_code = Inl ValueError \<and>
          is_otc_stock int_of symbols_cache stock_code = False \<and>
          (stock_code \<noteq> ''^TWII'' \<and> \<not> contains stock_code ''.TW'' \<and>
           \<not> contains stock_code ''.TWO''
             \<longrightarrow> hd (fst (fetch_stock_data int_of symbols_cache up stock_code)) = Twse))"
  by (simp add: is_otc_stock_def is_otc_stock_body_def fetch_stock_data_def Let_def)

theorem is_otc_stock_total_witness:
  "is_otc_stock_body dec_int [] ''ABCD'' = Inl ValueError \<and>
   is_otc_stock dec_int [] ''ABCD'' = False \<and>
   fst (fetch_stock_data dec_int []
     \<lparr>twii_direct_result = [7::nat], tpex_result = Some [5], twse_result = Some [1, 2],
      yfinance_result = Some [3]\<rparr> ''ABCD'') = [Twse] \<and>
   is_otc_stock_body dec_int [] ''3443'' = Inr True \<and>
   is_otc_stock dec_int [] ''3443'' = True"
proof -
  let ?up = "\<lparr>twii_direct_result = [7::nat], tpex_result = Some [5],
              twse_result = Some [1, 2], yfinance_result = Some [3]\<rparr>"
  have n: "dec_int ''ABCD'' = None"
    by (simp add: dec_int_def dec_nat_def is_digit_def)
  have c: "cache_lookup [] ''ABCD'' = None"
    by simp
  have s: "''ABCD'' \<noteq> ''^TWII'' \<and> \<not> contains ''ABCD'' ''.TW'' \<and> \<not> contains ''ABCD'' ''.TWO''"
    by simp
  have b: "is_otc_stock_body dec_int [] ''3443'' = Inr True"
    by (simp add: is_otc_stock_body_def dec_int_def dec_nat_def is_digit_def known_otc_stocks_def)
  from is_otc_stock_total [of dec_int "[]" "''ABCD''" ValueError True ?up] n c s
  have 1: "is_otc_stock_body dec_int [] ''ABCD'' = Inl ValueError \<and>
           is_otc_stock dec_int [] ''ABCD'' = False \<and>
           hd (fst (fetch_stock_data dec_int [] ?up ''ABCD'')) = Twse"
    by simp
  then have f: "fst (fetch_stock_data dec_int [] ?up ''ABCD'') = [Twse]"
    using s by (simp add: fetch_stock_data_def Let_def truthy_def)
  from is_otc_stock_total [of dec_int "[]" "''3443''" ValueError True ?up] b
  have 2: "is_otc_stock dec_int [] ''3443'' = True"
    by simp
  from 1 2 b f show ?thesis by simp
qed

section \<open>The incremental fetch window\<close>

lemma add_days_20240215:
  "add_days \<lparr>year = 2024, month = 2, day = 15\<rparr> 1 = Inr \<lparr>year = 2024, month = 2, day = 16\<rparr>"
  by (simp add: calendar_simps)

lemma add_days_20240110:
  "add_days \<lparr>year = 2024, month = 1, day = 10\<rparr> 1 = Inr \<lparr>year = 2024, month = 1, day = 11\<rparr>"
  by (simp add: calendar_simps)

lemma strftime_20240216: "strftime \<lparr>year = 2024, month = 2, day = 16\<rparr> = ''2024-02-16''"
  by (simp add: strftime_simps)

lemma strftime_20240111: "strftime \<lparr>year = 2024, month = 1, day = 11\<rparr> = ''2024-01-11''"
  by (simp add: strftime_simps)

text \<open>
  The claim C1 as it is written fails at two inputs. With the window 2024-01-01 to
  2024-01-31 and a latest stored date 2024-02-15, the day after (2024-02-16) is later
  than the requested start, yet the effective start stays the requested start. With a
  requested start 2024-03-01 after the requested end 2024-01-31 and no stored row, the
  effective start is later than the requested end.
\<close>

theorem effective_start_date_counterexample:
  "add_days \<lparr>year = 2024, month = 2, day = 15\<rparr> 1 = Inr \<lparr>year = 2024, month = 2, day = 16\<rparr> \<and>
   ''2024-01-01'' < strftime \<lparr>year = 2024, month = 2, day = 16\<rparr> \<and>
   effective_start_date ''2024-01-01'' (Some ''2024-01-31'')
     (Some \<lparr>year = 2024, month = 2, day = 15\<rparr>) = ''2024-01-01'' \<and>
   effective_start_date ''2024-01-01'' (Some ''2024-01-31'')
     (Some \<lparr>year = 2024, month = 2, day = 15\<rparr>) \<noteq> strftime \<lparr>year = 2024, month = 2, day = 16\<rparr> \<and>
   effective_start_date ''2024-03-01'' (Some ''2024-01-31'') None = ''2024-03-01'' \<and>
   ''2024-01-31'' < effective_start_date ''2024-03-01'' (Some ''2024-01-31'') None"
  by (simp add: effective_start_date_def add_days_20240215 strftime_20240216)

text \<open>
  C1, amended. The effective start is never earlier than the requested start; it is not
  later than the requested end whenever the requested start is not later than that end;
  it is the day after the latest stored date whenever that day is later than the
  requested start and there is no requested end or that day is not later than it; it is
  the requested start when the day after is later than the requested end, when the day
  after is not later than the requested start, and when the symbol has no stored row.
\<close>

theorem effective_start_date_window:
  "start_date \<le> effective_start_date start_date end_date latest_dt \<and>
   (end_date = Some e \<and> e \<noteq> [] \<and> start_date \<le> e
      \<longrightarrow> effective_start_date start_date end_date latest_dt \<le> e) \<and>
   (latest_dt = Some dt \<and> add_days dt 1 = Inr nd \<and> start_date < strftime nd \<and>
    (end_date = None \<or> end_date = Some [] \<or> (\<exists>e'. end_date = Some e' \<and> strftime nd \<le> e'))
      \<longrightarrow> effective_start_date start_date end_date latest_dt = strftime nd) \<and>
   (latest_dt = Some dt \<and> add_days dt 1 = Inr nd \<and> end_date = Some e \<and> e \<noteq> [] \<and>
    e < strftime nd
      \<longrightarrow> effective_start_date start_date end_date latest_dt = start_date) \<and>
   (latest_dt = Some dt \<and> add_days dt 1 = Inr nd \<and> strftime nd \<le> start_date
      \<longrightarrow> effective_start_date start_date end_date latest_dt = start_date) \<and>
   (latest_dt = None \<longrightarrow> effective_start_date start_date end_date latest_dt = start_date)"
  by (auto simp: effective_start_date_def Let_def split: option.splits sum.splits)

theorem effective_start_date_window_witness:
  "''2024-01-01'' \<le> effective_start_date ''2024-01-01'' (Some ''2024-01-31'')
      (Some \<lparr>year = 2024, month = 1, day = 10\<rparr>) \<and>
   effective_start_date ''2024-01-01'' (Some ''2024-01-31'')
      (Some \<lparr>year = 2024, month = 1, day = 10\<rparr>) \<le> ''2024-01-31'' \<and>
   effective_start_date ''2024-01-01'' (Some ''2024-01-31'')
      (Some \<lparr>year = 2024, month = 1, day = 10\<rparr>) = ''2024-01-11'' \<and>
   effective_start_date ''2024-01-01'' (Some ''2024-01-31'')
      (Some \<lparr>year = 2024, month = 2, day = 15\<rparr>) = ''2024-01-01'' \<and>
   effective_start_date ''2024-01-01'' (Some ''2024-01-31'') None = ''2024-01-01''"
proof -
  have a: "''2024-01-01'' < strftime \<lparr>year = 2024, month = 1, day = 11\<rparr> \<and>
           strftime \<lparr>year = 2024, month = 1, day = 11\<rparr> \<le> ''2024-01-31'' \<and>
           ''2024-01-01'' \<le> ''2024-01-31'' \<and> ''2024-01-31'' \<noteq> []"
    by (simp add: strftime_20240111)
  have b: "''2024-01-31'' < strftime \<lparr>year = 2024, month = 2, day = 16\<rparr>"
    by (simp add: strftime_20240216)
  show ?thesis
    using a b add_days_20240110 add_days_20240215 strftime_20240111
      effective_start_date_window [of "''2024-01-01''" "Some ''2024-01-31''"
        "Some \<lparr>year = 2024, month = 1, day = 10\<rparr>" "''2024-01-31''"
        "\<lparr>year = 2024, month = 1, day = 10\<rparr>" "\<lparr>year = 2024, month = 1, day = 11\<rparr>"]
      effective_start_date_window [of "''2024-01-01''" "Some ''2024-01-31''"
        "Some \<lparr>year = 2024, month = 2, day = 15\<rparr>" "''2024-01-31''"
        "\<lparr>year = 2024, month = 2, day = 15\<rparr>" "\<lparr>year = 2024, month = 2, day = 16\<rparr>"]
      effective_start_date_window [of "''2024-01-01''" "Some ''2024-01-31''" None]
    by simp
qed

section \<open>Writing the same price rows twice\<close>

lemma foldl_upsert_row_snoc:
  "foldl upsert_row tbl (vs @ [v]) = (foldl upsert_row tbl vs)(key_of v \<mapsto> cols_of v)"
  by (simp add: upsert_row_def)

lemma foldl_upsert_row_apply:
  "foldl upsert_row tbl vs k =
     (case map_of (rev (map (\<lambda>v. (key_of v, cols_of v)) vs)) k of
        None \<Rightarrow> tbl k
      | Some c \<Rightarrow> Some c)"
proof (induction vs rule: rev_induct)
  case Nil
  show ?case by simp
next
  case (snoc v vs)
  show ?case
    by (simp add: foldl_upsert_row_snoc snoc.IH del: foldl_append)
qed

lemma foldl_upsert_row_idem:
  "foldl upsert_row (foldl upsert_row tbl vs) vs = foldl upsert_row tbl vs"
  by (rule ext) (simp add: foldl_upsert_row_apply split: option.splits)

lemma foldl_upsert_row_other:
  "k \<notin> key_of ` set vs \<Longrightarrow> foldl upsert_row tbl vs k = tbl k"
  by (induction vs rule: rev_induct) (auto simp: upsert_row_def)

lemma foldl_upsert_row_stored:
  "distinct (map key_of vs) \<Longrightarrow> v \<in> set vs \<Longrightarrow> foldl upsert_row tbl vs (key_of v) = Some (cols_of v)"
proof (induction vs rule: rev_induct)
  case Nil
  then show ?case by simp
next
  case (snoc w vs)
  show ?case
  proof (cases "v = w")
    case True
    then show ?thesis by (simp add: upsert_row_def)
  next
    case False
    with snoc.prems have m: "v \<in> set vs" and d: "distinct (map key_of vs)"
      and n: "key_of w \<notin> key_of ` set vs"
      by auto
    from m n have "key_of v \<noteq> key_of w" by (metis image_eqI)
    with snoc.IH [OF d m] show ?thesis by (simp add: upsert_row_def)
  qed
qed

lemma concat_pages: "0 < page_size \<Longrightarrow> concat (pages page_size xs) = xs"
proof (induction page_size xs rule: pages.induct)
  case (1 page_size xs)
  show ?case
  proof (cases "xs = []")
    case True
    then show ?thesis by (subst pages.simps) simp
  next
    case False
    with 1 show ?thesis by (subst pages.simps) simp
  qed
qed

lemma execute_pages_distinct:
  "distinct (map key_of (concat ps)) \<Longrightarrow>
     execute_pages tbl ps = Inr (foldl upsert_row tbl (concat ps))"
  by (induction ps arbitrary: tbl) (auto simp: insert_on_conflict_update_def)

lemma execute_values_distinct:
  "0 < page_size \<Longrightarrow> distinct (map key_of vs) \<Longrightarrow>
     execute_values tbl vs page_size = Inr (foldl upsert_row tbl vs)"
  using execute_pages_distinct [of "pages page_size vs" tbl]
  by (simp add: execute_values_def concat_pages)

lemma distinct_keys_of_dates: "distinct (map v_date vs) \<Longrightarrow> distinct (map key_of vs)"
  by (auto simp: distinct_map key_of_def inj_on_def)

lemma existing_dates_all:
  assumes "\<And>d. d \<in> set ds \<Longrightarrow> tbl (symb, d) \<noteq> None" and "distinct ds"
  shows "existing_dates tbl symb ds = ds"
proof -
  have "filter (\<lambda>d. tbl (symb, d) \<noteq> None) ds = ds"
    using assms(1) by (simp add: filter_id_conv)
  then show ?thesis
    using assms(2) by (simp add: existing_dates_def)
qed

lemma existing_dates_none:
  assumes "\<And>d. d \<in> set ds \<Longrightarrow> tbl (symb, d) = None"
  shows "existing_dates tbl symb ds = []"
  using assms by (simp add: existing_dates_def filter_empty_conv)

text \<open>
  C2. For the rows of one symbol with pairwise different dates, the first write
  succeeds and stores every row under its key (symbol, date), leaving every other key
  as it was; when the table held none of the keys, it reports as many new rows as the
  batch has and no duplicate. Writing the same rows again leaves the table as it was
  after the first write, its existence query counts as many duplicates as the batch has
  rows, and the reported number of new rows is 0. \<open>upsert_prices\<close> of the storage
  module returns the number of rows both times and leaves the same table.
\<close>

theorem upsert_twice:
  assumes sym: "\<forall>v \<in> set vs. v_symbol v = symb" and dist: "distinct (map v_date vs)"
  shows "\<exists>r1. store_prices tbl symb vs = Inr r1 \<and>
           store_prices (table_after r1) symb vs
             = Inr \<lparr>table_after = table_after r1, price_records = 0,
                    duplicate_records = length vs\<rparr> \<and>
           (\<forall>v \<in> set vs. table_after r1 (key_of v) = Some (cols_of v)) \<and>
           (\<forall>k. k \<notin> key_of ` set vs \<longrightarrow> table_after r1 k = tbl k) \<and>
           ((\<forall>v \<in> set vs. tbl (key_of v) = None)
              \<longrightarrow> price_records r1 = length vs \<and> duplicate_records r1 = 0) \<and>
           upsert_prices tbl vs = Inr (table_after r1, length vs) \<and>
           upsert_prices (table_after r1) vs = Inr (table_after r1, length vs)"
proof -
  let ?t1 = "foldl upsert_row tbl vs"
  let ?d = "length (existing_dates tbl symb (map v_date vs))"
  let ?r1 = "\<lparr>table_after = ?t1, price_records = length vs - ?d, duplicate_records = ?d\<rparr>"
  have dk: "distinct (map key_of vs)"
    using dist by (rule distinct_keys_of_dates)
  have key: "\<And>v. v \<in> set vs \<Longrightarrow> key_of v = (symb, v_date v)"
    using sym by (simp add: key_of_def)
  have first: "store_prices tbl symb vs = Inr ?r1"
    by (simp add: store_prices_def Let_def execute_values_distinct [OF _ dk])
  have stored: "\<And>v. v \<in> set vs \<Longrightarrow> ?t1 (key_of v) = Some (cols_of v)"
    using dk by (rule foldl_upsert_row_stored)
  have "\<And>d. d \<in> set (map v_date vs) \<Longrightarrow> ?t1 (symb, d) \<noteq> None"
  proof -
    fix d assume "d \<in> set (map v_date vs)"
    then obtain v where v: "v \<in> set vs" and d: "d = v_date v" by auto
    from stored [OF v] key [OF v] d show "?t1 (symb, d) \<noteq> None" by simp
  qed
  then have ex: "existing_dates ?t1 symb (map v_date vs) = map v_date vs"
    using dist by (rule existing_dates_all)
  have second: "store_prices ?t1 symb vs
      = Inr \<lparr>table_after = ?t1, price_records = 0, duplicate_records = length vs\<rparr>"
    by (simp add: store_prices_def Let_def execute_values_distinct [OF _ dk] ex
        foldl_upsert_row_idem)
  have other: "\<forall>k. k \<notin> key_of ` set vs \<longrightarrow> ?t1 k = tbl k"
    by (simp add: foldl_upsert_row_other)
  have fresh: "(\<forall>v \<in> set vs. tbl (key_of v) = None) \<longrightarrow> ?d = 0"
  proof
    assume a: "\<forall>v \<in> set vs. tbl (key_of v) = None"
    have "\<And>d. d \<in> set (map v_date vs) \<Longrightarrow> tbl (symb, d) = None"
    proof -
      fix d assume "d \<in> set (map v_date vs)"
      then obtain v where v: "v \<in> set vs" and d: "d = v_date v" by auto
      from a v key [OF v] d show "tbl (symb, d) = None" by auto
    qed
    then have "existing_dates tbl symb (map v_date vs) = []"
      by (rule existing_dates_none)
    then show "?d = 0" by simp
  qed
  have u1: "upsert_prices tbl vs = Inr (?t1, length vs)"
    using dk by (simp add: upsert_prices_def insert_on_conflict_update_def)
  have u2: "upsert_prices ?t1 vs = Inr (?t1, length vs)"
    using dk by (simp add: upsert_prices_def insert_on_conflict_update_def foldl_upsert_row_idem)
  show ?thesis
  proof (rule exI [of _ ?r1], intro conjI)
    show "store_prices tbl symb vs = Inr ?r1"
      by (rule first)
    show "store_prices (table_after ?r1) symb vs
            = Inr \<lparr>table_after = table_after ?r1, price_records = 0,
                   duplicate_records = length vs\<rparr>"
      using second by simp
    show "\<forall>v \<in> set vs. table_after ?r1 (key_of v) = Some (cols_of v)"
      using stored by simp
    show "\<forall>k. k \<notin> key_of ` set vs \<longrightarrow> table_after ?r1 k = tbl k"
      using other by simp
    show "(\<forall>v \<in> set vs. tbl (key_of v) = None)
            \<longrightarrow> price_records ?r1 = length vs \<and> duplicate_records ?r1 = 0"
      using fresh by simp
    show "upsert_prices tbl vs = Inr (table_after ?r1, length vs)"
      using u1 by simp
    show "upsert_prices (table_after ?r1) vs = Inr (table_after ?r1, length vs)"
      using u2 by simp
  qed
qed


theorem upsert_twice_witness:
  "v_symbol \<lparr>v_symbol = ''2330.TW'', v_date = ''2024-01-02'', v_open = Some (Fin 590),
      v_high = Some (Fin 593), v_low = Some (Fin 589), v_close = Some (Fin 593),
      v_volume = Some 1000\<rparr> = ''2330.TW'' \<and>
   distinct (map v_date [\<lparr>v_symbol = ''2330.TW'', v_date = ''2024-01-02'',
      v_open = Some (Fin 590), v_high = Some (Fin 593), v_low = Some (Fin 589),
      v_close = Some (Fin 593), v_volume = Some 1000\<rparr>]) \<and>
   store_prices (\<lambda>k. None) ''2330.TW''
     [\<lparr>v_symbol = ''2330.TW'', v_date = ''2024-01-02'', v_open = Some (Fin 590),
       v_high = Some (Fin 593), v_low = Some (Fin 589), v_close = Some (Fin 593),
       v_volume = Some 1000\<rparr>]
     = Inr \<lparr>table_after = (\<lambda>k. None)((''2330.TW'', ''2024-01-02'') \<mapsto>
              (Some (Fin 590), Some (Fin 593), Some (Fin 589), Some (Fin 593), Some 1000)),
            price_records = 1, duplicate_records = 0\<rparr> \<and>
   store_prices ((\<lambda>k. None)((''2330.TW'', ''2024-01-02'') \<mapsto>
              (Some (Fin 590), Some (Fin 593), Some (Fin 589), Some (Fin 593), Some 1000)))
     ''2330.TW''
     [\<lparr>v_symbol = ''2330.TW'', v_date = ''2024-01-02'', v_open = Some (Fin 590),
       v_high = Some (Fin 593), v_low = Some (Fin 589), v_close = Some (Fin 593),
       v_volume = Some 1000\<rparr>]
     = Inr \<lparr>table_after = (\<lambda>k. None)((''2330.TW'', ''2024-01-02'') \<mapsto>
              (Some (Fin 590), Some (Fin 593), Some (Fin 589), Some (Fin 593), Some 1000)),
            price_records = 0, duplicate_records = 1\<rparr>"
proof -
  let ?row = "\<lparr>v_symbol = ''2330.TW'', v_date = ''2024-01-02'', v_open = Some (Fin 590),
      v_high = Some (Fin 593), v_low = Some (Fin 589), v_close = Some (Fin 593),
      v_volume = Some 1000\<rparr>"
  let ?t1 = "(\<lambda>k. None)((''2330.TW'', ''2024-01-02'') \<mapsto>
              (Some (Fin 590), Some (Fin 593), Some (Fin 589), Some (Fin 593), Some 1000))"
  have h1: "\<forall>v \<in> set [?row]. v_symbol v = ''2330.TW''"
    by simp
  have h2: "distinct (map v_date [?row])"
    by simp
  have p: "pages 1000 [?row] = [[?row]]"
    by (simp add: pages.simps)
  have first: "store_prices (\<lambda>k. None) ''2330.TW'' [?row]
      = Inr \<lparr>table_after = ?t1, price_records = 1, duplicate_records = 0\<rparr>"
    by (simp add: store_prices_def execute_values_def p insert_on_conflict_update_def
        upsert_row_def key_of_def cols_of_def existing_dates_def)
  from upsert_twice [OF h1 h2, of "\<lambda>k. None"] obtain r1 where
    r1: "store_prices (\<lambda>k. None) ''2330.TW'' [?row] = Inr r1" and
    again: "store_prices (table_after r1) ''2330.TW'' [?row]
      = Inr \<lparr>table_after = table_after r1, price_records = 0,
             duplicate_records = length [?row]\<rparr>"
    by blast
  from r1 first have "r1 = \<lparr>table_after = ?t1, price_records = 1, duplicate_records = 0\<rparr>"
    by simp
  then have t: "table_after r1 = ?t1"
    by simp
  from again have second: "store_prices ?t1 ''2330.TW'' [?row]
      = Inr \<lparr>table_after = ?t1, price_records = 0, duplicate_records = 1\<rparr>"
    unfolding t by simp
  from first second show ?thesis
    by simp
qed

section \<open>The rows of the exchange fetcher\<close>

lemma twse_row_appended:
  assumes "twse_row int_of float_of stock_code start_dt end_dt row = Inr (Appended r)"
  shows "\<exists>cell0 td. item row 0 = Inr cell0 \<and> length (split_on CHR ''/'' cell0) = 3 \<and>
           roc_to_date int_of (split_on CHR ''/'' cell0) = Inr td \<and>
           Date r = strftime td \<and> date_le start_dt td \<and> date_le td end_dt"
proof -
  from assms obtain cell0 where c: "item row 0 = Inr cell0"
    and l: "length (split_on CHR ''/'' cell0) = 3"
    by (auto simp: twse_row_def bind_err_Inr_iff Let_def split: if_splits)
  from assms c l obtain td where t: "roc_to_date int_of (split_on CHR ''/'' cell0) = Inr td"
    and w: "date_le start_dt td \<and> date_le td end_dt"
    by (auto simp: twse_row_def bind_err_Inr_iff Let_def split: if_splits)
  from assms c l t w have "Date r = strftime td"
    by (auto simp: twse_row_def bind_err_simps bind_err_Inr_iff Let_def split: if_splits)
  with c l t w show ?thesis by blast
qed

lemma roc_to_date_Inr:
  assumes "roc_to_date int_of date_parts = Inr td"
  shows "\<exists>y m d. int_of (date_parts ! 0) = Some y \<and> int_of (date_parts ! 1) = Some m \<and>
           int_of (date_parts ! 2) = Some d \<and> mk_date (y + 1911) m d = Inr td \<and>
           td = \<lparr>year = y + 1911, month = m, day = d\<rparr>"
  using assms
  by (auto simp: roc_to_date_def bind_err_Inr_iff parsed_def mk_date_def
      split: option.splits if_splits)

lemma twse_rows_sound:
  "r \<in> set (twse_rows int_of float_of stock_code start_dt end_dt rows) \<Longrightarrow>
     \<exists>row \<in> set rows. twse_row int_of float_of stock_code start_dt end_dt row = Inr (Appended r)"
  by (auto simp: twse_rows_def split: sum.splits row_outcome.splits)

lemma twse_rows_append:
  "twse_rows int_of float_of stock_code start_dt end_dt (rows1 @ rows2)
     = twse_rows int_of float_of stock_code start_dt end_dt rows1
       @ twse_rows int_of float_of stock_code start_dt end_dt rows2"
  by (simp add: twse_rows_def)

lemma twse_months_sound:
  "twse_months int_of float_of http stock_code start_dt end_dt cur = Inr result \<Longrightarrow>
   r \<in> set result \<Longrightarrow>
   \<exists>row. twse_row int_of float_of stock_code start_dt end_dt row = Inr (Appended r)"
proof (induction int_of float_of http stock_code start_dt end_dt cur arbitrary: result
    rule: twse_months.induct)
  case (1 int_of float_of http stock_code start_dt end_dt cur)
  show ?case
  proof (cases "date_le cur end_dt")
    case False
    with "1.prems" show ?thesis
      by (simp add: twse_months.simps [of _ _ _ _ _ _ cur])
  next
    case True
    let ?got = "case http (year cur) (month cur) of
                  None \<Rightarrow> []
                | Some rows \<Rightarrow> twse_rows int_of float_of stock_code start_dt end_dt rows"
    from True "1.prems"(1) obtain nxt later where
      n: "next_month cur = Inr nxt" and
      l: "twse_months int_of float_of http stock_code start_dt end_dt nxt = Inr later" and
      res: "result = ?got @ later"
      by (auto simp: twse_months.simps [of _ _ _ _ _ _ cur] Let_def split: sum.splits)
    from res "1.prems"(2) consider "r \<in> set ?got" | "r \<in> set later"
      by auto
    then show ?thesis
    proof cases
      case 1
      then show ?thesis
        by (auto split: option.splits dest: twse_rows_sound)
    next
      case 2
      from "1.IH" [OF True refl n l 2] show ?thesis .
    qed
  qed
qed

lemma fetch_twse_rows_in_window:
  assumes "fetch_twse_stock_data int_of float_of http stock_code start_date end_date = Some result"
  shows "\<exists>start_dt end_dt. strptime start_date = Inr start_dt \<and> strptime end_date = Inr end_dt \<and>
           (\<forall>r \<in> set result. \<exists>row cell0 y m d.
               item row 0 = Inr cell0 \<and> length (split_on CHR ''/'' cell0) = 3 \<and>
               int_of (split_on CHR ''/'' cell0 ! 0) = Some y \<and>
               int_of (split_on CHR ''/'' cell0 ! 1) = Some m \<and>
               int_of (split_on CHR ''/'' cell0 ! 2) = Some d \<and>
               mk_date (y + 1911) m d = Inr \<lparr>year = y + 1911, month = m, day = d\<rparr> \<and>
               Date r = strftime \<lparr>year = y + 1911, month = m, day = d\<rparr> \<and>
               date_le start_dt \<lparr>year = y + 1911, month = m, day = d\<rparr> \<and>
               date_le \<lparr>year = y + 1911, month = m, day = d\<rparr> end_dt)"
proof -
  from assms obtain start_dt end_dt res where
    s: "strptime start_date = Inr start_dt" and e: "strptime end_date = Inr end_dt" and
    m: "twse_months int_of float_of http stock_code start_dt end_dt start_dt = Inr res" and
    r: "result = sort_key Date res"
    by (auto simp: fetch_twse_stock_data_def split: sum.splits)
  have "\<exists>row cell0 y m d.
          item row 0 = Inr cell0 \<and> length (split_on CHR ''/'' cell0) = 3 \<and>
          int_of (split_on CHR ''/'' cell0 ! 0) = Some y \<and>
          int_of (split_on CHR ''/'' cell0 ! 1) = Some m \<and>
          int_of (split_on CHR ''/'' cell0 ! 2) = Some d \<and>
          mk_date (y + 1911) m d = Inr \<lparr>year = y + 1911, month = m, day = d\<rparr> \<and>
          Date x = strftime \<lparr>year = y + 1911, month = m, day = d\<rparr> \<and>
          date_le start_dt \<lparr>year = y + 1911, month = m, day = d\<rparr> \<and>
          date_le \<lparr>year = y + 1911, month = m, day = d\<rparr> end_dt"
    if x: "x \<in> set result" for x
  proof -
    from x r have "x \<in> set res" by simp
    from twse_months_sound [OF m this] obtain row where
      "twse_row int_of float_of stock_code start_dt end_dt row = Inr (Appended x)" ..
    from twse_row_appended [OF this] obtain cell0 td where
      c: "item row 0 = Inr cell0" "length (split_on CHR ''/'' cell0) = 3" and
      t: "roc_to_date int_of (split_on CHR ''/'' cell0) = Inr td" and
      d: "Date x = strftime td" "date_le start_dt td" "date_le td end_dt"
      by blast
    from roc_to_date_Inr [OF t] c d show ?thesis
      by blast
  qed
  with s e show ?thesis by blast
qed

lemma dec_int_113: "dec_int ''113'' = Some 113" "dec_int ''05'' = Some 5" "dec_int ''20'' = Some 20"
  by (simp_all add: parse_simps)

lemma split_1130520: "split_on CHR ''/'' ''113/05/20'' = [''113'', ''05'', ''20'']"
  by simp

lemma roc_to_date_1130520:
  "roc_to_date dec_int [''113'', ''05'', ''20''] = Inr \<lparr>year = 2024, month = 5, day = 20\<rparr>"
  by (simp add: roc_to_date_def dec_int_113 parsed_def bind_err_simps calendar_simps)

lemma strftime_20240520: "strftime \<lparr>year = 2024, month = 5, day = 20\<rparr> = ''2024-05-20''"
  by (simp add: strftime_simps)

text \<open>
  C7. The date of a row is built from the three parts of its first cell with the year
  of the local era plus 1911, before the window is looked at. A row whose date lies
  outside the inclusive window is discarded whatever its other cells hold, every
  appended row carries the converted date and that date lies in the window, and so
  does every row the fetcher returns.
\<close>

theorem twse_dates_converted:
  "(roc_to_date int_of date_parts = Inr td
      \<longrightarrow> (\<exists>y m d. int_of (date_parts ! 0) = Some y \<and> int_of (date_parts ! 1) = Some m \<and>
             int_of (date_parts ! 2) = Some d \<and> mk_date (y + 1911) m d = Inr td \<and>
             td = \<lparr>year = y + 1911, month = m, day = d\<rparr>)) \<and>
   (item row 0 = Inr cell0 \<and> length (split_on CHR ''/'' cell0) = 3 \<and>
    roc_to_date int_of (split_on CHR ''/'' cell0) = Inr td \<and>
    \<not> (date_le start_dt td \<and> date_le td end_dt)
      \<longrightarrow> twse_row int_of float_of stock_code start_dt end_dt row = Inr OutOfWindow) \<and>
   (twse_row int_of float_of stock_code start_dt end_dt row = Inr (Appended r)
      \<longrightarrow> (\<exists>c t. item row 0 = Inr c \<and> length (split_on CHR ''/'' c) = 3 \<and>
             roc_to_date int_of (split_on CHR ''/'' c) = Inr t \<and>
             Date r = strftime t \<and> date_le start_dt t \<and> date_le t end_dt)) \<and>
   (fetch_twse_stock_data int_of float_of http stock_code start_date end_date = Some result
      \<longrightarrow> (\<exists>sd ed. strptime start_date = Inr sd \<and> strptime end_date = Inr ed \<and>
             (\<forall>x \<in> set result. \<exists>xrow c y m d.
                 item xrow 0 = Inr c \<and> length (split_on CHR ''/'' c) = 3 \<and>
                 int_of (split_on CHR ''/'' c ! 0) = Some y \<and>
                 int_of (split_on CHR ''/'' c ! 1) = Some m \<and>
                 int_of (split_on CHR ''/'' c ! 2) = Some d \<and>
                 mk_date (y + 1911) m d = Inr \<lparr>year = y + 1911, month = m, day = d\<rparr> \<and>
                 Date x = strftime \<lparr>year = y + 1911, month = m, day = d\<rparr> \<and>
                 date_le sd \<lparr>year = y + 1911, month = m, day = d\<rparr> \<and>
                 date_le \<lparr>year = y + 1911, month = m, day = d\<rparr> ed)))"
proof (intro conjI impI)
  assume "roc_to_date int_of date_parts = Inr td"
  then show "\<exists>y m d. int_of (date_parts ! 0) = Some y \<and> int_of (date_parts ! 1) = Some m \<and>
             int_of (date_parts ! 2) = Some d \<and> mk_date (y + 1911) m d = Inr td \<and>
             td = \<lparr>year = y + 1911, month = m, day = d\<rparr>"
    by (rule roc_to_date_Inr)
next
  assume "item row 0 = Inr cell0 \<and> length (split_on CHR ''/'' cell0) = 3 \<and>
    roc_to_date int_of (split_on CHR ''/'' cell0) = Inr td \<and>
    \<not> (date_le start_dt td \<and> date_le td end_dt)"
  then show "twse_row int_of float_of stock_code start_dt end_dt row = Inr OutOfWindow"
    by (auto simp: twse_row_def bind_err_simps Let_def)
next
  assume "twse_row int_of float_of stock_code start_dt end_dt row = Inr (Appended r)"
  then show "\<exists>c t. item row 0 = Inr c \<and> length (split_on CHR ''/'' c) = 3 \<and>
             roc_to_date int_of (split_on CHR ''/'' c) = Inr t \<and>
             Date r = strftime t \<and> date_le start_dt t \<and> date_le t end_dt"
    by (rule twse_row_appended)
next
  assume "fetch_twse_stock_data int_of float_of http stock_code start_date end_date = Some result"
  then show "\<exists>sd ed. strptime start_date = Inr sd \<and> strptime end_date = Inr ed \<and>
             (\<forall>x \<in> set result. \<exists>xrow c y m d.
                 item xrow 0 = Inr c \<and> length (split_on CHR ''/'' c) = 3 \<and>
                 int_of (split_on CHR ''/'' c ! 0) = Some y \<and>
                 int_of (split_on CHR ''/'' c ! 1) = Some m \<and>
                 int_of (split_on CHR ''/'' c ! 2) = Some d \<and>
                 mk_date (y + 1911) m d = Inr \<lparr>year = y + 1911, month = m, day = d\<rparr> \<and>
                 Date x = strftime \<lparr>year = y + 1911, month = m, day = d\<rparr> \<and>
                 date_le sd \<lparr>year = y + 1911, month = m, day = d\<rparr> \<and>
                 date_le \<lparr>year = y + 1911, month = m, day = d\<rparr> ed)"
    by (rule fetch_twse_rows_in_window)
qed

theorem twse_dates_converted_witness:
  "roc_to_date dec_int (split_on CHR ''/'' ''113/05/20'')
     = Inr \<lparr>year = 2024, month = 5, day = 20\<rparr> \<and>
   strftime \<lparr>year = 2024, month = 5, day = 20\<rparr> = ''2024-05-20'' \<and>
   dec_int (split_on CHR ''/'' ''113/05/20'' ! 0) = Some 113 \<and>
   twse_row dec_int dec_float ''2330''
     \<lparr>year = 2024, month = 5, day = 21\<rparr> \<lparr>year = 2024, month = 5, day = 31\<rparr>
     [''113/05/20'', ''1,000'', ''5,000'', ''850.00'', ''860.00'', ''845.00'', ''855.00'']
     = Inr OutOfWindow \<and>
   twse_row dec_int dec_float ''2330''
     \<lparr>year = 2024, month = 5, day = 1\<rparr> \<lparr>year = 2024, month = 5, day = 31\<rparr>
     [''113/05/20'', ''1,000'', ''5,000'', ''850.00'', ''860.00'', ''845.00'', ''855.00'']
     = Inr (Appended \<lparr>ticker = ''2330.TW'', Date = ''2024-05-20'', Open = Fin 850,
              High = Fin 860, Low = Fin 845, Close = Fin 855, Volume = 1000\<rparr>)"
proof -
  let ?row = "[''113/05/20'', ''1,000'', ''5,000'', ''850.00'', ''860.00'', ''845.00'', ''855.00'']"
  let ?td = "\<lparr>year = 2024, month = 5, day = 20\<rparr>"
  have i: "item ?row 0 = Inr ''113/05/20''"
    by (simp add: item_def)
  have l: "length (split_on CHR ''/'' ''113/05/20'') = 3"
    by simp
  have w: "\<not> (date_le \<lparr>year = 2024, month = 5, day = 21\<rparr> ?td \<and>
               date_le ?td \<lparr>year = 2024, month = 5, day = 31\<rparr>)"
    by (simp add: date_le_def)
  have out: "twse_row dec_int dec_float ''2330''
     \<lparr>year = 2024, month = 5, day = 21\<rparr> \<lparr>year = 2024, month = 5, day = 31\<rparr> ?row
     = Inr OutOfWindow"
    using twse_dates_converted [of dec_int "split_on CHR ''/'' ''113/05/20''" ?td ?row
        "''113/05/20''" "\<lparr>year = 2024, month = 5, day = 21\<rparr>"
        "\<lparr>year = 2024, month = 5, day = 31\<rparr>" dec_float "''2330''"]
      i l w roc_to_date_1130520 split_1130520
    by simp
  have cells: "int_cell dec_int ?row (Suc 0) = Inr 1000"
    "float_cell dec_float ?row 3 = Inr (Fin 850)"
    "float_cell dec_float ?row 4 = Inr (Fin 860)"
    "float_cell dec_float ?row 5 = Inr (Fin 845)"
    "float_cell dec_float ?row 6 = Inr (Fin 855)"
    by (simp_all add: int_cell_def float_cell_def item_def bind_err_simps remove_char_def
        parsed_def parse_simps)
  have kept: "twse_row dec_int dec_float ''2330''
     \<lparr>year = 2024, month = 5, day = 1\<rparr> \<lparr>year = 2024, month = 5, day = 31\<rparr> ?row
     = Inr (Appended \<lparr>ticker = ''2330.TW'', Date = ''2024-05-20'', Open = Fin 850,
              High = Fin 860, Low = Fin 845, Close = Fin 855, Volume = 1000\<rparr>)"
    by (simp add: twse_row_def i bind_err_simps split_1130520 roc_to_date_1130520
        date_le_def cells strftime_20240520 round_simps del: split_on.simps)
  have p: "dec_int (split_on CHR ''/'' ''113/05/20'' ! 0) = Some 113"
    by (simp add: dec_int_113)
  from roc_to_date_1130520 strftime_20240520 p out kept show ?thesis
    by (simp add: split_1130520 del: split_on.simps)
qed

section \<open>The price bound and the sentinel\<close>

lemma twse_row_in_window:
  assumes "item row 0 = Inr cell0" and "length (split_on CHR ''/'' cell0) = 3"
    and "roc_to_date int_of (split_on CHR ''/'' cell0) = Inr td"
    and "date_le start_dt td" and "date_le td end_dt"
    and "int_cell int_of row 1 = Inr vol"
    and "float_cell float_of row 3 = Inr open_price"
    and "float_cell float_of row 4 = Inr high_price"
    and "float_cell float_of row 5 = Inr low_price"
    and "float_cell float_of row 6 = Inr close_price"
  shows "twse_row int_of float_of stock_code start_dt end_dt row =
           (if flt open_price (Fin 30000) \<and> flt high_price (Fin 30000) \<and>
               flt low_price (Fin 30000) \<and> flt close_price (Fin 30000)
            then Inr (Appended
                   \<lparr>ticker = stock_code @ ''.TW'', Date = strftime td,
                    Open = py_round 2 open_price, High = py_round 2 high_price,
                    Low = py_round 2 low_price, Close = py_round 2 close_price,
                    Volume = vol\<rparr>)
            else Inr PriceWarning)"
  using assms by (simp add: twse_row_def bind_err_simps Let_def)









text \<open>
  The claim C8 as it is written fails for the prices: a row of the window 2024-05-01 to
  2024-05-31 whose four price cells are the sentinel is appended with the four prices 0,
  numeric values that pass the price bound.
\<close>

theorem sentinel_price_counterexample:
  "float_cell dec_float
     [''113/05/20'', ''1,000'', ''5,000'', ''--'', ''--'', ''--'', ''--''] 6 = Inr (Fin 0) \<and>
   flt (Fin 0) (Fin 30000) \<and>
   twse_row dec_int dec_float ''2330''
     \<lparr>year = 2024, month = 5, day = 1\<rparr> \<lparr>year = 2024, month = 5, day = 31\<rparr>
     [''113/05/20'', ''1,000'', ''5,000'', ''--'', ''--'', ''--'', ''--'']
     = Inr (Appended \<lparr>ticker = ''2330.TW'', Date = ''2024-05-20'', Open = Fin 0,
              High = Fin 0, Low = Fin 0, Close = Fin 0, Volume = 1000\<rparr>)"
proof -
  let ?row = "[''113/05/20'', ''1,000'', ''5,000'', ''--'', ''--'', ''--'', ''--'']"
  have cells: "int_cell dec_int ?row (Suc 0) = Inr 1000"
    "float_cell dec_float ?row 3 = Inr (Fin 0)"
    "float_cell dec_float ?row 4 = Inr (Fin 0)"
    "float_cell dec_float ?row 5 = Inr (Fin 0)"
    "float_cell dec_float ?row 6 = Inr (Fin 0)"
    by (simp_all add: int_cell_def float_cell_def item_def bind_err_simps remove_char_def
        parsed_def parse_simps)
  have "twse_row dec_int dec_float ''2330''
     \<lparr>year = 2024, month = 5, day = 1\<rparr> \<lparr>year = 2024, month = 5, day = 31\<rparr> ?row
     = Inr (Appended \<lparr>ticker = ''2330.TW'', Date = ''2024-05-20'', Open = Fin 0,
              High = Fin 0, Low = Fin 0, Close = Fin 0, Volume = 1000\<rparr>)"
    by (simp add: twse_row_def item_def bind_err_simps split_1130520 roc_to_date_1130520
        date_le_def cells strftime_20240520 round_simps del: split_on.simps)
  with cells(5) show ?thesis
    by simp
qed

text \<open>
  C8, amended. A numeric cell other than the sentinel has its thousands separators
  removed and is then parsed; the sentinel gives zero for the volume and the numeric
  price zero for each of the four price cells, and a row in the window whose four price
  cells are the sentinel is appended with the four prices 0.
\<close>

theorem numeric_cells:
  "(item row i = Inr c \<and> c \<noteq> ''--''
      \<longrightarrow> int_cell int_of row i = parsed (int_of (remove_char CHR '','' c)) \<and>
          float_cell float_of row i = parsed (float_of (remove_char CHR '','' c))) \<and>
   (item row i = Inr ''--''
      \<longrightarrow> int_cell int_of row i = Inr 0 \<and> float_cell float_of row i = Inr (Fin 0)) \<and>
   CHR '','' \<notin> set (remove_char CHR '','' c) \<and>
   remove_char CHR '','' (a @ '','' @ b) = remove_char CHR '','' a @ remove_char CHR '','' b \<and>
   (CHR '','' \<notin> set c \<longrightarrow> remove_char CHR '','' c = c) \<and>
   (item row 0 = Inr cell0 \<and> length (split_on CHR ''/'' cell0) = 3 \<and>
    roc_to_date int_of (split_on CHR ''/'' cell0) = Inr td \<and>
    date_le start_dt td \<and> date_le td end_dt \<and>
    int_cell int_of row 1 = Inr vol \<and>
    item row 3 = Inr ''--'' \<and> item row 4 = Inr ''--'' \<and>
    item row 5 = Inr ''--'' \<and> item row 6 = Inr ''--''
      \<longrightarrow> twse_row int_of float_of stock_code start_dt end_dt row =
            Inr (Appended
                   \<lparr>ticker = stock_code @ ''.TW'', Date = strftime td,
                    Open = Fin 0, High = Fin 0, Low = Fin 0, Close = Fin 0,
                    Volume = vol\<rparr>))"
proof (intro conjI impI)
  assume a: "item row i = Inr c \<and> c \<noteq> ''--''"
  then show "int_cell int_of row i = parsed (int_of (remove_char CHR '','' c))"
    by (simp add: int_cell_def bind_err_simps)
  from a show "float_cell float_of row i = parsed (float_of (remove_char CHR '','' c))"
    by (simp add: float_cell_def bind_err_simps)
next
  assume a: "item row i = Inr ''--''"
  then show "int_cell int_of row i = Inr 0"
    by (simp add: int_cell_def bind_err_simps)
  from a show "float_cell float_of row i = Inr (Fin 0)"
    by (simp add: float_cell_def bind_err_simps)
next
  show "CHR '','' \<notin> set (remove_char CHR '','' c)"
    by (simp add: remove_char_def)
next
  show "remove_char CHR '','' (a @ '','' @ b) = remove_char CHR '','' a @ remove_char CHR '','' b"
    by (simp add: remove_char_def)
next
  assume "CHR '','' \<notin> set c"
  then show "remove_char CHR '','' c = c"
    by (simp add: remove_char_def filter_id_conv) blast
next
  assume a: "item row 0 = Inr cell0 \<and> length (split_on CHR ''/'' cell0) = 3 \<and>
    roc_to_date int_of (split_on CHR ''/'' cell0) = Inr td \<and>
    date_le start_dt td \<and> date_le td end_dt \<and>
    int_cell int_of row 1 = Inr vol \<and>
    item row 3 = Inr ''--'' \<and> item row 4 = Inr ''--'' \<and>
    item row 5 = Inr ''--'' \<and> item row 6 = Inr ''--''"
  then have f: "float_cell float_of row 3 = Inr (Fin 0)" "float_cell float_of row 4 = Inr (Fin 0)"
    "float_cell float_of row 5 = Inr (Fin 0)" "float_cell float_of row 6 = Inr (Fin 0)"
    by (simp_all add: float_cell_def bind_err_simps)
  from a f have "twse_row int_of float_of stock_code start_dt end_dt row =
           (if flt (Fin 0) (Fin 30000) \<and> flt (Fin 0) (Fin 30000) \<and>
               flt (Fin 0) (Fin 30000) \<and> flt (Fin 0) (Fin 30000)
            then Inr (Appended
                   \<lparr>ticker = stock_code @ ''.TW'', Date = strftime td,
                    Open = py_round 2 (Fin 0), High = py_round 2 (Fin 0),
                    Low = py_round 2 (Fin 0), Close = py_round 2 (Fin 0),
                    Volume = vol\<rparr>)
            else Inr PriceWarning)"
    by (simp add: twse_row_def bind_err_simps Let_def)
  then show "twse_row int_of float_of stock_code start_dt end_dt row =
            Inr (Appended
                   \<lparr>ticker = stock_code @ ''.TW'', Date = strftime td,
                    Open = Fin 0, High = Fin 0, Low = Fin 0, Close = Fin 0,
                    Volume = vol\<rparr>)"
    by (simp add: round_simps)
qed

theorem numeric_cells_witness:
  "int_cell dec_int [''113/05/20'', ''1,234,000'', ''5,000'', ''--'', ''850.00''] 1
     = Inr 1234000 \<and>
   remove_char CHR '','' ''1,234,000'' = ''1234000'' \<and>
   float_cell dec_float [''113/05/20'', ''1,234,000'', ''5,000'', ''--'', ''1,850.50''] 4
     = Inr (Fin (3701 / 2)) \<and>
   int_cell dec_int [''113/05/20'', ''--'', ''5,000'', ''--'', ''850.00''] 1 = Inr 0 \<and>
   float_cell dec_float [''113/05/20'', ''--'', ''5,000'', ''--'', ''850.00''] 3 = Inr (Fin 0)"
proof -
  have a: "item [''113/05/20'', ''1,234,000'', ''5,000'', ''--'', ''850.00''] 1
             = Inr ''1,234,000'' \<and> ''1,234,000'' \<noteq> ''--''"
    by (simp add: item_def)
  have b: "item [''113/05/20'', ''1,234,000'', ''5,000'', ''--'', ''1,850.50''] 4
             = Inr ''1,850.50'' \<and> ''1,850.50'' \<noteq> ''--''"
    by (simp add: item_def)
  have c: "item [''113/05/20'', ''--'', ''5,000'', ''--'', ''850.00''] 1 = Inr ''--''"
    by (simp add: item_def)
  have d: "item [''113/05/20'', ''--'', ''5,000'', ''--'', ''850.00''] 3 = Inr ''--''"
    by (simp add: item_def)
  have r: "remove_char CHR '','' ''1,234,000'' = ''1234000''"
    "remove_char CHR '','' ''1,850.50'' = ''1850.50''"
    by (simp_all add: remove_char_def)
  have p: "parsed (dec_int ''1234000'') = Inr 1234000"
    "parsed (dec_float ''1850.50'') = Inr (Fin (3701 / 2))"
    by (simp_all add: parsed_def parse_simps)
  from numeric_cells [where int_of = dec_int and float_of = dec_float,
      THEN conjunct1, rule_format, OF a] r p
  have 1: "int_cell dec_int [''113/05/20'', ''1,234,000'', ''5,000'', ''--'', ''850.00''] 1
             = Inr 1234000"
    by simp
  from numeric_cells [where int_of = dec_int and float_of = dec_float,
      THEN conjunct1, rule_format, OF b] r p
  have 2: "float_cell dec_float [''113/05/20'', ''1,234,000'', ''5,000'', ''--'', ''1,850.50''] 4
             = Inr (Fin (3701 / 2))"
    by simp
  from numeric_cells [where int_of = dec_int and float_of = dec_float,
      THEN conjunct2, THEN conjunct1, rule_format, OF c]
  have 3: "int_cell dec_int [''113/05/20'', ''--'', ''5,000'', ''--'', ''850.00''] 1 = Inr 0"
    by simp
  from numeric_cells [where int_of = dec_int and float_of = dec_float,
      THEN conjunct2, THEN conjunct1, rule_format, OF d]
  have 4: "float_cell dec_float [''113/05/20'', ''--'', ''5,000'', ''--'', ''850.00''] 3
             = Inr (Fin 0)"
    by simp
  from 1 r(1) 2 3 4 show ?thesis
    by (intro conjI)
qed

section \<open>Daily returns\<close>


lemma parse_dates_dates:
  "parse_dates ps = Inr dated \<Longrightarrow> map (\<lambda>p. Inr (fst p)) dated = map (\<lambda>r. strptime (Date r)) ps"
  by (induction ps arbitrary: dated) (auto simp: bind_err_Inr_iff)



















lemma ordinals_may:
  "toordinal \<lparr>year = 2024, month = 5, day = 20\<rparr> = 739026"
  "toordinal \<lparr>year = 2024, month = 5, day = 21\<rparr> = 739027"
  "toordinal \<lparr>year = 2024, month = 5, day = 22\<rparr> = 739028"
  by (simp_all add: calendar_simps)

lemma strftime_may:
  "strftime \<lparr>year = 2024, month = 5, day = 21\<rparr> = ''2024-05-21''"
  "strftime \<lparr>year = 2024, month = 5, day = 22\<rparr> = ''2024-05-22''"
  by (simp_all add: strftime_simps)





section \<open>The fields of the return tuples\<close>

lemma finite_or_null_coerce: "finite_or_null (coerce_null v)"
  by (cases v) (simp_all add: finite_or_null_def coerce_null_def)

lemma return_tuple_finite:
  assumes "return_tuple symb weeklies monthlies rr = Inr t"
  shows "finite_or_null (rv_daily_return t) \<and> finite_or_null (rv_weekly_return t) \<and>
         finite_or_null (rv_monthly_return t) \<and> finite_or_null (rv_cumulative_return t)"
proof -
  from assms obtain w m where
    "t = \<lparr>rv_symbol = symb, rv_date = ret_Date rr,
          rv_daily_return = coerce_null (Some (ret_return rr)),
          rv_weekly_return = coerce_null w,
          rv_monthly_return = coerce_null m,
          rv_cumulative_return = coerce_null (Some (ret_cumulative_return rr))\<rparr>"
    by (auto simp: return_tuple_def bind_err_Inr_iff)
  then show ?thesis
    by (simp add: finite_or_null_coerce)
qed

lemma return_tuples_sound:
  "t \<in> set (return_tuples symb weeklies monthlies dailies) \<Longrightarrow>
     \<exists>rr \<in> set dailies. return_tuple symb weeklies monthlies rr = Inr t"
  by (auto simp: return_tuples_def split: sum.splits)

lemma py_round_isnan: "isnan (py_round n x) = isnan x"
  by (cases x) (simp_all add: isnan_def)

lemma daily_returns_not_nan:
  assumes "rr \<in> set (daily_returns df)"
  shows "\<not> isnan (ret_return rr) \<and> \<not> isnan (ret_cumulative_return rr)"
proof -
  from assms obtain row ret cum where "\<not> isnan ret" and "rr = daily_record row ret cum"
    by (auto simp: daily_returns_def Let_def)
  then show ?thesis
    by (simp add: daily_record_def py_round_isnan) (simp add: isnan_def)
qed

lemma columns_zero_ten_zero:
  "daily_columns [Fin 0, Fin 10, Fin 0] = ([NaN, PosInf, Fin (- 1)], [NaN, PosInf, NaN])"
  by (simp add: daily_columns_def pct_change_pad_def ffill_def pct_change_def shift1_def
      cumulative_def cumprod_def isnan_def fsub_def inf_of_sign_def)

lemma parse_dates_zero_ten_zero:
  "parse_dates
     [\<lparr>ticker = ''2330.TW'', Date = ''2024-05-20'', Open = Fin 0, High = Fin 0,
       Low = Fin 0, Close = Fin 0, Volume = 0\<rparr>,
      \<lparr>ticker = ''2330.TW'', Date = ''2024-05-21'', Open = Fin 10, High = Fin 10,
       Low = Fin 10, Close = Fin 10, Volume = 1000\<rparr>,
      \<lparr>ticker = ''2330.TW'', Date = ''2024-05-22'', Open = Fin 0, High = Fin 0,
       Low = Fin 0, Close = Fin 0, Volume = 0\<rparr>]
   = Inr [(\<lparr>year = 2024, month = 5, day = 20\<rparr>,
           \<lparr>ticker = ''2330.TW'', Date = ''2024-05-20'', Open = Fin 0, High = Fin 0,
            Low = Fin 0, Close = Fin 0, Volume = 0\<rparr>),
          (\<lparr>year = 2024, month = 5, day = 21\<rparr>,
           \<lparr>ticker = ''2330.TW'', Date = ''2024-05-21'', Open = Fin 10, High = Fin 10,
            Low = Fin 10, Close = Fin 10, Volume = 1000\<rparr>),
          (\<lparr>year = 2024, month = 5, day = 22\<rparr>,
           \<lparr>ticker = ''2330.TW'', Date = ''2024-05-22'', Open = Fin 0, High = Fin 0,
            Low = Fin 0, Close = Fin 0, Volume = 0\<rparr>)]"
  by (simp add: strptime_def parse_simps calendar_simps bind_err_simps)

lemma daily_returns_zero_ten_zero:
  "daily_returns
     [(\<lparr>year = 2024, month = 5, day = 20\<rparr>,
       \<lparr>ticker = ''2330.TW'', Date = ''2024-05-20'', Open = Fin 0, High = Fin 0,
        Low = Fin 0, Close = Fin 0, Volume = 0\<rparr>),
      (\<lparr>year = 2024, month = 5, day = 21\<rparr>,
       \<lparr>ticker = ''2330.TW'', Date = ''2024-05-21'', Open = Fin 10, High = Fin 10,
        Low = Fin 10, Close = Fin 10, Volume = 1000\<rparr>),
      (\<lparr>year = 2024, month = 5, day = 22\<rparr>,
       \<lparr>ticker = ''2330.TW'', Date = ''2024-05-22'', Open = Fin 0, High = Fin 0,
        Low = Fin 0, Close = Fin 0, Volume = 0\<rparr>)]
   = [\<lparr>ret_ticker = ''2330.TW'', ret_Date = ''2024-05-21'', ret_frequency = ''daily'',
       ret_return = PosInf, ret_cumulative_return = PosInf\<rparr>,
      \<lparr>ret_ticker = ''2330.TW'', ret_Date = ''2024-05-22'', ret_frequency = ''daily'',
       ret_return = Fin (- 1), ret_cumulative_return = Fin 0\<rparr>]"
  by (simp add: daily_returns_def columns_zero_ten_zero isnan_def daily_record_def
      strftime_may round_simps)

text \<open>
  The claim C5 as it is written fails for a cumulative return that is NaN. With the
  closes 0, 10, 0 (a close of 0 is what the exchange fetcher makes of the sentinel) the
  cumulative column is NaN on the third day, the record of that day carries 0.0
  instead, and so does the tuple built for the write.
\<close>

theorem nan_cumulative_counterexample:
  "snd (daily_columns [Fin 0, Fin 10, Fin 0]) ! 2 = NaN \<and>
   calculate_returns
     [\<lparr>ticker = ''2330.TW'', Date = ''2024-05-20'', Open = Fin 0, High = Fin 0,
       Low = Fin 0, Close = Fin 0, Volume = 0\<rparr>,
      \<lparr>ticker = ''2330.TW'', Date = ''2024-05-21'', Open = Fin 10, High = Fin 10,
       Low = Fin 10, Close = Fin 10, Volume = 1000\<rparr>,
      \<lparr>ticker = ''2330.TW'', Date = ''2024-05-22'', Open = Fin 0, High = Fin 0,
       Low = Fin 0, Close = Fin 0, Volume = 0\<rparr>] ''daily''
   = Inr [\<lparr>ret_ticker = ''2330.TW'', ret_Date = ''2024-05-21'', ret_frequency = ''daily'',
           ret_return = PosInf, ret_cumulative_return = PosInf\<rparr>,
          \<lparr>ret_ticker = ''2330.TW'', ret_Date = ''2024-05-22'', ret_frequency = ''daily'',
           ret_return = Fin (- 1), ret_cumulative_return = Fin 0\<rparr>] \<and>
   return_tuples ''2330.TW'' [] []
     [\<lparr>ret_ticker = ''2330.TW'', ret_Date = ''2024-05-21'', ret_frequency = ''daily'',
       ret_return = PosInf, ret_cumulative_return = PosInf\<rparr>,
      \<lparr>ret_ticker = ''2330.TW'', ret_Date = ''2024-05-22'', ret_frequency = ''daily'',
       ret_return = Fin (- 1), ret_cumulative_return = Fin 0\<rparr>]
   = [\<lparr>rv_symbol = ''2330.TW'', rv_date = ''2024-05-21'', rv_daily_return = None,
       rv_weekly_return = None, rv_monthly_return = None, rv_cumulative_return = None\<rparr>,
      \<lparr>rv_symbol = ''2330.TW'', rv_date = ''2024-05-22'', rv_daily_return = Some (Fin (- 1)),
       rv_weekly_return = None, rv_monthly_return = None,
       rv_cumulative_return = Some (Fin 0)\<rparr>]"
proof (intro conjI)
  show "snd (daily_columns [Fin 0, Fin 10, Fin 0]) ! 2 = NaN"
    by (simp add: columns_zero_ten_zero)
next
  show "calculate_returns
     [\<lparr>ticker = ''2330.TW'', Date = ''2024-05-20'', Open = Fin 0, High = Fin 0,
       Low = Fin 0, Close = Fin 0, Volume = 0\<rparr>,
      \<lparr>ticker = ''2330.TW'', Date = ''2024-05-21'', Open = Fin 10, High = Fin 10,
       Low = Fin 10, Close = Fin 10, Volume = 1000\<rparr>,
      \<lparr>ticker = ''2330.TW'', Date = ''2024-05-22'', Open = Fin 0, High = Fin 0,
       Low = Fin 0, Close = Fin 0, Volume = 0\<rparr>] ''daily''
   = Inr [\<lparr>ret_ticker = ''2330.TW'', ret_Date = ''2024-05-21'', ret_frequency = ''daily'',
           ret_return = PosInf, ret_cumulative_return = PosInf\<rparr>,
          \<lparr>ret_ticker = ''2330.TW'', ret_Date = ''2024-05-22'', ret_frequency = ''daily'',
           ret_return = Fin (- 1), ret_cumulative_return = Fin 0\<rparr>]"
    by (simp add: calculate_returns_def parse_dates_zero_ten_zero bind_err_simps
        sort_values_def ordinals_may daily_returns_zero_ten_zero del: parse_dates.simps)
next
  show "return_tuples ''2330.TW'' [] []
     [\<lparr>ret_ticker = ''2330.TW'', ret_Date = ''2024-05-21'', ret_frequency = ''daily'',
       ret_return = PosInf, ret_cumulative_return = PosInf\<rparr>,
      \<lparr>ret_ticker = ''2330.TW'', ret_Date = ''2024-05-22'', ret_frequency = ''daily'',
       ret_return = Fin (- 1), ret_cumulative_return = Fin 0\<rparr>]
   = [\<lparr>rv_symbol = ''2330.TW'', rv_date = ''2024-05-21'', rv_daily_return = None,
       rv_weekly_return = None, rv_monthly_return = None, rv_cumulative_return = None\<rparr>,
      \<lparr>rv_symbol = ''2330.TW'', rv_date = ''2024-05-22'', rv_daily_return = Some (Fin (- 1)),
       rv_weekly_return = None, rv_monthly_return = None,
       rv_cumulative_return = Some (Fin 0)\<rparr>]"
    by (simp add: return_tuples_def return_tuple_def bind_err_simps coerce_null_def
        isinf_def isnan_def)
qed

text \<open>
  C5, amended. In every tuple the batch update builds for the write, each of the four
  return fields is null or a finite number: an infinite value, and a NaN that reaches
  the tuple, is replaced by null. NaN values of the daily calculation do not reach the
  tuple: a day whose daily return is NaN gets no record, and a cumulative return that
  is NaN is recorded as 0.0.
\<close>

theorem return_fields_finite:
  "(return_tuple symb weeklies monthlies rr = Inr t
      \<longrightarrow> finite_or_null (rv_daily_return t) \<and> finite_or_null (rv_weekly_return t) \<and>
          finite_or_null (rv_monthly_return t) \<and> finite_or_null (rv_cumulative_return t)) \<and>
   (t \<in> set (return_tuples symb weeklies monthlies dailies)
      \<longrightarrow> finite_or_null (rv_daily_return t) \<and> finite_or_null (rv_weekly_return t) \<and>
          finite_or_null (rv_monthly_return t) \<and> finite_or_null (rv_cumulative_return t)) \<and>
   coerce_null (Some PosInf) = None \<and> coerce_null (Some NegInf) = None \<and>
   coerce_null (Some NaN) = None \<and> coerce_null (Some (Fin q)) = Some (Fin q) \<and>
   coerce_null None = None \<and>
   (rec \<in> set (daily_returns df)
      \<longrightarrow> \<not> isnan (ret_return rec) \<and> \<not> isnan (ret_cumulative_return rec)) \<and>
   (isnan cum \<longrightarrow> ret_cumulative_return (daily_record row ret cum) = Fin 0)"
proof (intro conjI impI)
  assume a: "return_tuple symb weeklies monthlies rr = Inr t"
  from return_tuple_finite [OF a]
  show "finite_or_null (rv_daily_return t)" "finite_or_null (rv_weekly_return t)"
    "finite_or_null (rv_monthly_return t)" "finite_or_null (rv_cumulative_return t)"
    by simp_all
next
  assume "t \<in> set (return_tuples symb weeklies monthlies dailies)"
  then obtain x where "return_tuple symb weeklies monthlies x = Inr t"
    by (auto dest: return_tuples_sound)
  from return_tuple_finite [OF this]
  show "finite_or_null (rv_daily_return t)" "finite_or_null (rv_weekly_return t)"
    "finite_or_null (rv_monthly_return t)" "finite_or_null (rv_cumulative_return t)"
    by simp_all
next
  show "coerce_null (Some PosInf) = None" "coerce_null (Some NegInf) = None"
    "coerce_null (Some NaN) = None" "coerce_null (Some (Fin q)) = Some (Fin q)"
    "coerce_null None = None"
    by (simp_all add: coerce_null_def isinf_def isnan_def)
next
  assume a: "rec \<in> set (daily_returns df)"
  from daily_returns_not_nan [OF a]
  show "\<not> isnan (ret_return rec)" "\<not> isnan (ret_cumulative_return rec)"
    by simp_all
next
  assume "isnan cum"
  then show "ret_cumulative_return (daily_record row ret cum) = Fin 0"
    by (simp add: daily_record_def)
qed

theorem return_fields_finite_witness:
  "return_tuple ''2330.TW'' [] []
     \<lparr>ret_ticker = ''2330.TW'', ret_Date = ''2024-05-21'', ret_frequency = ''daily'',
      ret_return = PosInf, ret_cumulative_return = PosInf\<rparr>
   = Inr \<lparr>rv_symbol = ''2330.TW'', rv_date = ''2024-05-21'', rv_daily_return = None,
          rv_weekly_return = None, rv_monthly_return = None, rv_cumulative_return = None\<rparr> \<and>
   finite_or_null (rv_daily_return
     \<lparr>rv_symbol = ''2330.TW'', rv_date = ''2024-05-21'', rv_daily_return = None,
      rv_weekly_return = None, rv_monthly_return = None, rv_cumulative_return = None\<rparr>) \<and>
   finite_or_null (rv_cumulative_return
     \<lparr>rv_symbol = ''2330.TW'', rv_date = ''2024-05-21'', rv_daily_return = None,
      rv_weekly_return = None, rv_monthly_return = None, rv_cumulative_return = None\<rparr>) \<and>
   \<not> finite_or_null (Some PosInf) \<and> \<not> finite_or_null (Some NaN) \<and>
   finite_or_null (Some (Fin (1 / 10)))"
proof -
  let ?rr = "\<lparr>ret_ticker = ''2330.TW'', ret_Date = ''2024-05-21'', ret_frequency = ''daily'',
      ret_return = PosInf, ret_cumulative_return = PosInf\<rparr>"
  let ?t = "\<lparr>rv_symbol = ''2330.TW'', rv_date = ''2024-05-21'', rv_daily_return = None,
      rv_weekly_return = None, rv_monthly_return = None, rv_cumulative_return = None\<rparr>"
  have e: "return_tuple ''2330.TW'' [] [] ?rr = Inr ?t"
    by (simp add: return_tuple_def bind_err_simps coerce_null_def isinf_def)
  from return_fields_finite [where symb = "''2330.TW''" and weeklies = "[]" and monthlies = "[]"
      and rr = ?rr and t = ?t, THEN conjunct1, rule_format, OF e]
  have f: "finite_or_null (rv_daily_return ?t) \<and> finite_or_null (rv_cumulative_return ?t)"
    by blast
  have g: "\<not> finite_or_null (Some PosInf) \<and> \<not> finite_or_null (Some NaN) \<and>
           finite_or_null (Some (Fin (1 / 10)))"
    by (simp add: finite_or_null_def isinf_def isnan_def)
  from e f g show ?thesis
    by blast
qed

section \<open>The weekly return at the turn of the year\<close>

lemma parse_dates_year_end:
  "parse_dates
     [\<lparr>ticker = ''2330.TW'', Date = ''2024-12-27'', Open = Fin 100, High = Fin 100,
       Low = Fin 100, Close = Fin 100, Volume = 1000\<rparr>,
      \<lparr>ticker = ''2330.TW'', Date = ''2024-12-30'', Open = Fin 110, High = Fin 110,
       Low = Fin 110, Close = Fin 110, Volume = 1000\<rparr>,
      \<lparr>ticker = ''2330.TW'', Date = ''2024-12-31'', Open = Fin 121, High = Fin 121,
       Low = Fin 121, Close = Fin 121, Volume = 1000\<rparr>]
   = Inr [(\<lparr>year = 2024, month = 12, day = 27\<rparr>,
           \<lparr>ticker = ''2330.TW'', Date = ''2024-12-27'', Open = Fin 100, High = Fin 100,
            Low = Fin 100, Close = Fin 100, Volume = 1000\<rparr>),
          (\<lparr>year = 2024, month = 12, day = 30\<rparr>,
           \<lparr>ticker = ''2330.TW'', Date = ''2024-12-30'', Open = Fin 110, High = Fin 110,
            Low = Fin 110, Close = Fin 110, Volume = 1000\<rparr>),
          (\<lparr>year = 2024, month = 12, day = 31\<rparr>,
           \<lparr>ticker = ''2330.TW'', Date = ''2024-12-31'', Open = Fin 121, High = Fin 121,
            Low = Fin 121, Close = Fin 121, Volume = 1000\<rparr>)]"
  by (simp add: strptime_def parse_simps calendar_simps bind_err_simps)

lemma ordinals_year_end:
  "toordinal \<lparr>year = 2024, month = 12, day = 27\<rparr> = 739247"
  "toordinal \<lparr>year = 2024, month = 12, day = 30\<rparr> = 739250"
  "toordinal \<lparr>year = 2024, month = 12, day = 31\<rparr> = 739251"
  "toordinal \<lparr>year = 2025, month = 1, day = 5\<rparr> = 739256"
  by (simp_all add: calendar_simps)

lemma week_bins_year_end:
  "week_bin \<lparr>year = 2024, month = 12, day = 27\<rparr> = 739249"
  "week_bin \<lparr>year = 2024, month = 12, day = 30\<rparr> = 739256"
  "week_bin \<lparr>year = 2024, month = 12, day = 31\<rparr> = 739256"
  by (simp_all add: week_bin_def weekday_def ordinals_year_end)

lemma month_bins_year_end:
  "month_bin \<lparr>year = 2024, month = 12, day = 27\<rparr> = 24299"
  "month_bin \<lparr>year = 2024, month = 12, day = 30\<rparr> = 24299"
  "month_bin \<lparr>year = 2024, month = 12, day = 31\<rparr> = 24299"
  by (simp_all add: month_bin_def)

lemma week_label_year_end:
  "week_label 739256 = \<lparr>year = 2025, month = 1, day = 5\<rparr>"
  by (simp add: week_label_def calendar_simps)

lemma strftime_year_end:
  "strftime \<lparr>year = 2025, month = 1, day = 5\<rparr> = ''2025-01-05''"
  "strftime \<lparr>year = 2024, month = 12, day = 30\<rparr> = ''2024-12-30''"
  "strftime \<lparr>year = 2024, month = 12, day = 31\<rparr> = ''2024-12-31''"
  by (simp_all add: strftime_simps)

lemma strptime_year_end:
  "strptime ''2025-01-05'' = Inr \<lparr>year = 2025, month = 1, day = 5\<rparr>"
  "strptime ''2024-12-30'' = Inr \<lparr>year = 2024, month = 12, day = 30\<rparr>"
  "strptime ''2024-12-31'' = Inr \<lparr>year = 2024, month = 12, day = 31\<rparr>"
  by (simp_all add: strptime_def parse_simps calendar_simps)

lemma iso_weeks_year_end:
  "iso_week \<lparr>year = 2024, month = 12, day = 30\<rparr> = 1"
  "iso_week \<lparr>year = 2024, month = 12, day = 31\<rparr> = 1"
  "iso_week \<lparr>year = 2025, month = 1, day = 5\<rparr> = 1"
  "iso_week \<lparr>year = 2024, month = 1, day = 7\<rparr> = 1"
  "iso_week \<lparr>year = 2024, month = 1, day = 2\<rparr> = 1"
  by code_simp+

lemma upt_one: "[0 ..< Suc 0] = [0]" "[0 ..< Suc (Suc 0)] = [0, Suc 0]"
  by simp_all

lemma resample_week_year_end:
  "resample_last week_bin 7
     [(\<lparr>year = 2024, month = 12, day = 27\<rparr>,
       \<lparr>ticker = ''2330.TW'', Date = ''2024-12-27'', Open = Fin 100, High = Fin 100,
        Low = Fin 100, Close = Fin 100, Volume = 1000\<rparr>),
      (\<lparr>year = 2024, month = 12, day = 30\<rparr>,
       \<lparr>ticker = ''2330.TW'', Date = ''2024-12-30'', Open = Fin 110, High = Fin 110,
        Low = Fin 110, Close = Fin 110, Volume = 1000\<rparr>),
      (\<lparr>year = 2024, month = 12, day = 31\<rparr>,
       \<lparr>ticker = ''2330.TW'', Date = ''2024-12-31'', Open = Fin 121, High = Fin 121,
        Low = Fin 121, Close = Fin 121, Volume = 1000\<rparr>)]
   = [(739249, Fin 100), (739256, Fin 121)]"
  by (simp add: resample_last_def week_bins_year_end last_valid_def isnan_def upt_one)

lemma resample_month_year_end:
  "resample_last month_bin 1
     [(\<lparr>year = 2024, month = 12, day = 27\<rparr>,
       \<lparr>ticker = ''2330.TW'', Date = ''2024-12-27'', Open = Fin 100, High = Fin 100,
        Low = Fin 100, Close = Fin 100, Volume = 1000\<rparr>),
      (\<lparr>year = 2024, month = 12, day = 30\<rparr>,
       \<lparr>ticker = ''2330.TW'', Date = ''2024-12-30'', Open = Fin 110, High = Fin 110,
        Low = Fin 110, Close = Fin 110, Volume = 1000\<rparr>),
      (\<lparr>year = 2024, month = 12, day = 31\<rparr>,
       \<lparr>ticker = ''2330.TW'', Date = ''2024-12-31'', Open = Fin 121, High = Fin 121,
        Low = Fin 121, Close = Fin 121, Volume = 1000\<rparr>)]
   = [(24299, Fin 121)]"
  by (simp add: resample_last_def month_bins_year_end last_valid_def isnan_def)

lemma weekly_year_end:
  "period_returns week_label ''weekly'' ''2330.TW'' [(739249, Fin 100), (739256, Fin 121)]
   = [\<lparr>ret_ticker = ''2330.TW'', ret_Date = ''2025-01-05'', ret_frequency = ''weekly'',
       ret_return = Fin (21 / 100), ret_cumulative_return = Fin (21 / 100)\<rparr>]"
  by (simp add: period_returns_def pct_change_def shift1_def cumulative_def cumprod_def
      isnan_def fsub_def week_label_year_end strftime_year_end round_simps)

lemma monthly_year_end:
  "period_returns month_label ''monthly'' ''2330.TW'' [(24299, Fin 121)] = []"
  by (simp add: period_returns_def pct_change_def shift1_def cumulative_def cumprod_def
      isnan_def fsub_def)

lemma daily_year_end:
  "daily_returns
     [(\<lparr>year = 2024, month = 12, day = 27\<rparr>,
       \<lparr>ticker = ''2330.TW'', Date = ''2024-12-27'', Open = Fin 100, High = Fin 100,
        Low = Fin 100, Close = Fin 100, Volume = 1000\<rparr>),
      (\<lparr>year = 2024, month = 12, day = 30\<rparr>,
       \<lparr>ticker = ''2330.TW'', Date = ''2024-12-30'', Open = Fin 110, High = Fin 110,
        Low = Fin 110, Close = Fin 110, Volume = 1000\<rparr>),
      (\<lparr>year = 2024, month = 12, day = 31\<rparr>,
       \<lparr>ticker = ''2330.TW'', Date = ''2024-12-31'', Open = Fin 121, High = Fin 121,
        Low = Fin 121, Close = Fin 121, Volume = 1000\<rparr>)]
   = [\<lparr>ret_ticker = ''2330.TW'', ret_Date = ''2024-12-30'', ret_frequency = ''daily'',
       ret_return = Fin (1 / 10), ret_cumulative_return = Fin (1 / 10)\<rparr>,
      \<lparr>ret_ticker = ''2330.TW'', ret_Date = ''2024-12-31'', ret_frequency = ''daily'',
       ret_return = Fin (1 / 10), ret_cumulative_return = Fin (21 / 100)\<rparr>]"
  by (simp add: daily_returns_def daily_columns_def pct_change_pad_def ffill_def
      pct_change_def shift1_def cumulative_def cumprod_def isnan_def fsub_def
      daily_record_def strftime_year_end round_simps)

lemma calculate_returns_year_end:
  "calculate_returns
     [\<lparr>ticker = ''2330.TW'', Date = ''2024-12-27'', Open = Fin 100, High = Fin 100,
       Low = Fin 100, Close = Fin 100, Volume = 1000\<rparr>,
      \<lparr>ticker = ''2330.TW'', Date = ''2024-12-30'', Open = Fin 110, High = Fin 110,
       Low = Fin 110, Close = Fin 110, Volume = 1000\<rparr>,
      \<lparr>ticker = ''2330.TW'', Date = ''2024-12-31'', Open = Fin 121, High = Fin 121,
       Low = Fin 121, Close = Fin 121, Volume = 1000\<rparr>] ''daily''
   = Inr [\<lparr>ret_ticker = ''2330.TW'', ret_Date = ''2024-12-30'', ret_frequency = ''daily'',
           ret_return = Fin (1 / 10), ret_cumulative_return = Fin (1 / 10)\<rparr>,
          \<lparr>ret_ticker = ''2330.TW'', ret_Date = ''2024-12-31'', ret_frequency = ''daily'',
           ret_return = Fin (1 / 10), ret_cumulative_return = Fin (21 / 100)\<rparr>]"
  "calculate_returns
     [\<lparr>ticker = ''2330.TW'', Date = ''2024-12-27'', Open = Fin 100, High = Fin 100,
       Low = Fin 100, Close = Fin 100, Volume = 1000\<rparr>,
      \<lparr>ticker = ''2330.TW'', Date = ''2024-12-30'', Open = Fin 110, High = Fin 110,
       Low = Fin 110, Close = Fin 110, Volume = 1000\<rparr>,
      \<lparr>ticker = ''2330.TW'', Date = ''2024-12-31'', Open = Fin 121, High = Fin 121,
       Low = Fin 121, Close = Fin 121, Volume = 1000\<rparr>] ''weekly''
   = Inr [\<lparr>ret_ticker = ''2330.TW'', ret_Date = ''2025-01-05'', ret_frequency = ''weekly'',
           ret_return = Fin (21 / 100), ret_cumulative_return = Fin (21 / 100)\<rparr>]"
  "calculate_returns
     [\<lparr>ticker = ''2330.TW'', Date = ''2024-12-27'', Open = Fin 100, High = Fin 100,
       Low = Fin 100, Close = Fin 100, Volume = 1000\<rparr>,
      \<lparr>ticker = ''2330.TW'', Date = ''2024-12-30'', Open = Fin 110, High = Fin 110,
       Low = Fin 110, Close = Fin 110, Volume = 1000\<rparr>,
      \<lparr>ticker = ''2330.TW'', Date = ''2024-12-31'', Open = Fin 121, High = Fin 121,
       Low = Fin 121, Close = Fin 121, Volume = 1000\<rparr>] ''monthly''
   = Inr []"
  by (simp_all add: calculate_returns_def parse_dates_year_end bind_err_simps sort_values_def
      ordinals_year_end daily_year_end weekly_returns_def monthly_returns_def
      resample_week_year_end resample_month_year_end weekly_year_end monthly_year_end
      del: parse_dates.simps)

lemma find_weekly_year_end:
  "find_weekly
     [\<lparr>ret_ticker = ''2330.TW'', ret_Date = ''2025-01-05'', ret_frequency = ''weekly'',
       ret_return = Fin (21 / 100), ret_cumulative_return = Fin (21 / 100)\<rparr>]
     ''2024-12-30'' = Inr None"
  "find_weekly
     [\<lparr>ret_ticker = ''2330.TW'', ret_Date = ''2025-01-05'', ret_frequency = ''weekly'',
       ret_return = Fin (21 / 100), ret_cumulative_return = Fin (21 / 100)\<rparr>]
     ''2024-12-31'' = Inr None"
  by (simp_all add: strptime_year_end bind_err_simps iso_weeks_year_end)

lemma parse_dates_turn:
  "parse_dates
     [\<lparr>ticker = ''2330.TW'', Date = ''2023-12-29'', Open = Fin 100, High = Fin 100,
       Low = Fin 100, Close = Fin 100, Volume = 1000\<rparr>,
      \<lparr>ticker = ''2330.TW'', Date = ''2024-01-02'', Open = Fin 110, High = Fin 110,
       Low = Fin 110, Close = Fin 110, Volume = 1000\<rparr>,
      \<lparr>ticker = ''2330.TW'', Date = ''2024-12-30'', Open = Fin 90, High = Fin 90,
       Low = Fin 90, Close = Fin 90, Volume = 1000\<rparr>]
   = Inr [(\<lparr>year = 2023, month = 12, day = 29\<rparr>,
           \<lparr>ticker = ''2330.TW'', Date = ''2023-12-29'', Open = Fin 100, High = Fin 100,
            Low = Fin 100, Close = Fin 100, Volume = 1000\<rparr>),
          (\<lparr>year = 2024, month = 1, day = 2\<rparr>,
           \<lparr>ticker = ''2330.TW'', Date = ''2024-01-02'', Open = Fin 110, High = Fin 110,
            Low = Fin 110, Close = Fin 110, Volume = 1000\<rparr>),
          (\<lparr>year = 2024, month = 12, day = 30\<rparr>,
           \<lparr>ticker = ''2330.TW'', Date = ''2024-12-30'', Open = Fin 90, High = Fin 90,
            Low = Fin 90, Close = Fin 90, Volume = 1000\<rparr>)]"
  by (simp add: strptime_def parse_simps calendar_simps bind_err_simps)

lemma ordinals_turn:
  "toordinal \<lparr>year = 2023, month = 12, day = 29\<rparr> = 738883"
  "toordinal \<lparr>year = 2024, month = 1, day = 2\<rparr> = 738887"
  "toordinal \<lparr>year = 2024, month = 1, day = 7\<rparr> = 738892"
  by code_simp+

lemma strptime_turn:
  "strptime ''2024-01-07'' = Inr \<lparr>year = 2024, month = 1, day = 7\<rparr>"
  "strptime ''2024-01-31'' = Inr \<lparr>year = 2024, month = 1, day = 31\<rparr>"
  "strptime ''2024-01-02'' = Inr \<lparr>year = 2024, month = 1, day = 2\<rparr>"
  by (simp_all add: strptime_def parse_simps calendar_simps)

lemma weekly_returns_turn:
  "weekly_returns
     [(\<lparr>year = 2023, month = 12, day = 29\<rparr>,
       \<lparr>ticker = ''2330.TW'', Date = ''2023-12-29'', Open = Fin 100, High = Fin 100,
        Low = Fin 100, Close = Fin 100, Volume = 1000\<rparr>),
      (\<lparr>year = 2024, month = 1, day = 2\<rparr>,
       \<lparr>ticker = ''2330.TW'', Date = ''2024-01-02'', Open = Fin 110, High = Fin 110,
        Low = Fin 110, Close = Fin 110, Volume = 1000\<rparr>),
      (\<lparr>year = 2024, month = 12, day = 30\<rparr>,
       \<lparr>ticker = ''2330.TW'', Date = ''2024-12-30'', Open = Fin 90, High = Fin 90,
        Low = Fin 90, Close = Fin 90, Volume = 1000\<rparr>)]
   = [\<lparr>ret_ticker = ''2330.TW'', ret_Date = ''2024-01-07'', ret_frequency = ''weekly'',
       ret_return = Fin (1 / 10), ret_cumulative_return = Fin (1 / 10)\<rparr>]"
  by code_simp

lemma monthly_returns_turn:
  "monthly_returns
     [(\<lparr>year = 2023, month = 12, day = 29\<rparr>,
       \<lparr>ticker = ''2330.TW'', Date = ''2023-12-29'', Open = Fin 100, High = Fin 100,
        Low = Fin 100, Close = Fin 100, Volume = 1000\<rparr>),
      (\<lparr>year = 2024, month = 1, day = 2\<rparr>,
       \<lparr>ticker = ''2330.TW'', Date = ''2024-01-02'', Open = Fin 110, High = Fin 110,
        Low = Fin 110, Close = Fin 110, Volume = 1000\<rparr>),
      (\<lparr>year = 2024, month = 12, day = 30\<rparr>,
       \<lparr>ticker = ''2330.TW'', Date = ''2024-12-30'', Open = Fin 90, High = Fin 90,
        Low = Fin 90, Close = Fin 90, Volume = 1000\<rparr>)]
   = [\<lparr>ret_ticker = ''2330.TW'', ret_Date = ''2024-01-31'', ret_frequency = ''monthly'',
       ret_return = Fin (1 / 10), ret_cumulative_return = Fin (1 / 10)\<rparr>]"
  by code_simp

lemma daily_returns_turn:
  "daily_returns
     [(\<lparr>year = 2023, month = 12, day = 29\<rparr>,
       \<lparr>ticker = ''2330.TW'', Date = ''2023-12-29'', Open = Fin 100, High = Fin 100,
        Low = Fin 100, Close = Fin 100, Volume = 1000\<rparr>),
      (\<lparr>year = 2024, month = 1, day = 2\<rparr>,
       \<lparr>ticker = ''2330.TW'', Date = ''2024-01-02'', Open = Fin 110, High = Fin 110,
        Low = Fin 110, Close = Fin 110, Volume = 1000\<rparr>),
      (\<lparr>year = 2024, month = 12, day = 30\<rparr>,
       \<lparr>ticker = ''2330.TW'', Date = ''2024-12-30'', Open = Fin 90, High = Fin 90,
        Low = Fin 90, Close = Fin 90, Volume = 1000\<rparr>)]
   = [\<lparr>ret_ticker = ''2330.TW'', ret_Date = ''2024-01-02'', ret_frequency = ''daily'',
       ret_return = Fin (1 / 10), ret_cumulative_return = Fin (1 / 10)\<rparr>,
      \<lparr>ret_ticker = ''2330.TW'', ret_Date = ''2024-12-30'', ret_frequency = ''daily'',
       ret_return = Fin (- (90909 / 500000)), ret_cumulative_return = Fin (- (1 / 10))\<rparr>]"
  by code_simp


lemma calculate_returns_turn:
  "calculate_returns
     [\<lparr>ticker = ''2330.TW'', Date = ''2023-12-29'', Open = Fin 100, High = Fin 100,
       Low = Fin 100, Close = Fin 100, Volume = 1000\<rparr>,
      \<lparr>ticker = ''2330.TW'', Date = ''2024-01-02'', Open = Fin 110, High = Fin 110,
       Low = Fin 110, Close = Fin 110, Volume = 1000\<rparr>,
      \<lparr>ticker = ''2330.TW'', Date = ''2024-12-30'', Open = Fin 90, High = Fin 90,
       Low = Fin 90, Close = Fin 90, Volume = 1000\<rparr>] ''daily''
   = Inr [\<lparr>ret_ticker = ''2330.TW'', ret_Date = ''2024-01-02'', ret_frequency = ''daily'',
           ret_return = Fin (1 / 10), ret_cumulative_return = Fin (1 / 10)\<rparr>,
          \<lparr>ret_ticker = ''2330.TW'', ret_Date = ''2024-12-30'', ret_frequency = ''daily'',
           ret_return = Fin (- (90909 / 500000)), ret_cumulative_return = Fin (- (1 / 10))\<rparr>]"
  "calculate_returns
     [\<lparr>ticker = ''2330.TW'', Date = ''2023-12-29'', Open = Fin 100, High = Fin 100,
       Low = Fin 100, Close = Fin 100, Volume = 1000\<rparr>,
      \<lparr>ticker = ''2330.TW'', Date = ''2024-01-02'', Open = Fin 110, High = Fin 110,
       Low = Fin 110, Close = Fin 110, Volume = 1000\<rparr>,
      \<lparr>ticker = ''2330.TW'', Date = ''2024-12-30'', Open = Fin 90, High = Fin 90,
       Low = Fin 90, Close = Fin 90, Volume = 1000\<rparr>] ''weekly''
   = Inr [\<lparr>ret_ticker = ''2330.TW'', ret_Date = ''2024-01-07'', ret_frequency = ''weekly'',
           ret_return = Fin (1 / 10), ret_cumulative_return = Fin (1 / 10)\<rparr>]"
  "calculate_returns
     [\<lparr>ticker = ''2330.TW'', Date = ''2023-12-29'', Open = Fin 100, High = Fin 100,
       Low = Fin 100, Close = Fin 100, Volume = 1000\<rparr>,
      \<lparr>ticker = ''2330.TW'', Date = ''2024-01-02'', Open = Fin 110, High = Fin 110,
       Low = Fin 110, Close = Fin 110, Volume = 1000\<rparr>,
      \<lparr>ticker = ''2330.TW'', Date = ''2024-12-30'', Open = Fin 90, High = Fin 90,
       Low = Fin 90, Close = Fin 90, Volume = 1000\<rparr>] ''monthly''
   = Inr [\<lparr>ret_ticker = ''2330.TW'', ret_Date = ''2024-01-31'', ret_frequency = ''monthly'',
           ret_return = Fin (1 / 10), ret_cumulative_return = Fin (1 / 10)\<rparr>]"
  by (simp_all add: calculate_returns_def parse_dates_turn bind_err_simps sort_values_def
      ordinals_turn ordinals_year_end daily_returns_turn weekly_returns_turn
      monthly_returns_turn del: parse_dates.simps)

lemma find_weekly_turn:
  "find_weekly
     [\<lparr>ret_ticker = ''2330.TW'', ret_Date = ''2024-01-07'', ret_frequency = ''weekly'',
           ret_return = Fin (1 / 10), ret_cumulative_return = Fin (1 / 10)\<rparr>]
     ''2024-01-02'' = Inr (Some (Fin (1 / 10)))"
  "find_weekly
     [\<lparr>ret_ticker = ''2330.TW'', ret_Date = ''2024-01-07'', ret_frequency = ''weekly'',
           ret_return = Fin (1 / 10), ret_cumulative_return = Fin (1 / 10)\<rparr>]
     ''2024-12-30'' = Inr (Some (Fin (1 / 10)))"
  by (simp_all add: strptime_year_end strptime_turn bind_err_simps iso_weeks_year_end)

lemma find_monthly_turn:
  "find_monthly
     [\<lparr>ret_ticker = ''2330.TW'', ret_Date = ''2024-01-31'', ret_frequency = ''monthly'',
           ret_return = Fin (1 / 10), ret_cumulative_return = Fin (1 / 10)\<rparr>]
     ''2024-01-02'' = Inr (Some (Fin (1 / 10)))"
  "find_monthly
     [\<lparr>ret_ticker = ''2330.TW'', ret_Date = ''2024-01-31'', ret_frequency = ''monthly'',
           ret_return = Fin (1 / 10), ret_cumulative_return = Fin (1 / 10)\<rparr>]
     ''2024-12-30'' = Inr None"
  by (simp_all add: strptime_year_end strptime_turn bind_err_simps)

text \<open>
  C4. Two series at the turn of the year 2024, where the weekly return of a tuple is
  not that of the week the day lies in.

  The rows of 2024-12-27 (a Friday), 2024-12-30 and 2024-12-31 (Monday and Tuesday of
  the next week) give one weekly return, 0.21, for the week that ends on Sunday
  2025-01-05, and both daily records lie in that week (their group of the weekly
  resampling is the one labelled 2025-01-05, and the ISO week number of all three dates
  is 1). The scan compares the calendar years 2024 and 2025 and finds no weekly return:
  the tuples of both days carry null.

  The rows of 2023-12-29, 2024-01-02 and 2024-12-30 give one weekly return, 0.1, for
  the week that ends on 2024-01-07, and none for the week of 2024-12-30 (which ends on
  2025-01-05). Both 2024-12-30 and 2024-01-07 have ISO week number 1 and calendar year
  2024: the tuple of 2024-12-30 carries 0.1, the return of a week 51 weeks earlier,
  where its own week has no return.
\<close>

theorem weekly_return_year_end:
  "calculate_returns
     [\<lparr>ticker = ''2330.TW'', Date = ''2024-12-27'', Open = Fin 100, High = Fin 100,
       Low = Fin 100, Close = Fin 100, Volume = 1000\<rparr>,
      \<lparr>ticker = ''2330.TW'', Date = ''2024-12-30'', Open = Fin 110, High = Fin 110,
       Low = Fin 110, Close = Fin 110, Volume = 1000\<rparr>,
      \<lparr>ticker = ''2330.TW'', Date = ''2024-12-31'', Open = Fin 121, High = Fin 121,
       Low = Fin 121, Close = Fin 121, Volume = 1000\<rparr>] ''weekly''
   = Inr [\<lparr>ret_ticker = ''2330.TW'', ret_Date = ''2025-01-05'', ret_frequency = ''weekly'',
           ret_return = Fin (21 / 100), ret_cumulative_return = Fin (21 / 100)\<rparr>] \<and>
   week_bin \<lparr>year = 2024, month = 12, day = 30\<rparr>
     = toordinal \<lparr>year = 2025, month = 1, day = 5\<rparr> \<and>
   week_bin \<lparr>year = 2024, month = 12, day = 31\<rparr>
     = toordinal \<lparr>year = 2025, month = 1, day = 5\<rparr> \<and>
   iso_week \<lparr>year = 2024, month = 12, day = 30\<rparr>
     = iso_week \<lparr>year = 2025, month = 1, day = 5\<rparr> \<and>
   symbol_return_tuples ''2330.TW''
     [\<lparr>ticker = ''2330.TW'', Date = ''2024-12-27'', Open = Fin 100, High = Fin 100,
       Low = Fin 100, Close = Fin 100, Volume = 1000\<rparr>,
      \<lparr>ticker = ''2330.TW'', Date = ''2024-12-30'', Open = Fin 110, High = Fin 110,
       Low = Fin 110, Close = Fin 110, Volume = 1000\<rparr>,
      \<lparr>ticker = ''2330.TW'', Date = ''2024-12-31'', Open = Fin 121, High = Fin 121,
       Low = Fin 121, Close = Fin 121, Volume = 1000\<rparr>]
   = Inr [\<lparr>rv_symbol = ''2330.TW'', rv_date = ''2024-12-30'',
           rv_daily_return = Some (Fin (1 / 10)), rv_weekly_return = None,
           rv_monthly_return = None, rv_cumulative_return = Some (Fin (1 / 10))\<rparr>,
          \<lparr>rv_symbol = ''2330.TW'', rv_date = ''2024-12-31'',
           rv_daily_return = Some (Fin (1 / 10)), rv_weekly_return = None,
           rv_monthly_return = None, rv_cumulative_return = Some (Fin (21 / 100))\<rparr>] \<and>
   calculate_returns
     [\<lparr>ticker = ''2330.TW'', Date = ''2023-12-29'', Open = Fin 100, High = Fin 100,
       Low = Fin 100, Close = Fin 100, Volume = 1000\<rparr>,
      \<lparr>ticker = ''2330.TW'', Date = ''2024-01-02'', Open = Fin 110, High = Fin 110,
       Low = Fin 110, Close = Fin 110, Volume = 1000\<rparr>,
      \<lparr>ticker = ''2330.TW'', Date = ''2024-12-30'', Open = Fin 90, High = Fin 90,
       Low = Fin 90, Close = Fin 90, Volume = 1000\<rparr>] ''weekly''
   = Inr [\<lparr>ret_ticker = ''2330.TW'', ret_Date = ''2024-01-07'', ret_frequency = ''weekly'',
           ret_return = Fin (1 / 10), ret_cumulative_return = Fin (1 / 10)\<rparr>] \<and>
   week_bin \<lparr>year = 2024, month = 12, day = 30\<rparr>
     \<noteq> toordinal \<lparr>year = 2024, month = 1, day = 7\<rparr> \<and>
   iso_week \<lparr>year = 2024, month = 12, day = 30\<rparr>
     = iso_week \<lparr>year = 2024, month = 1, day = 7\<rparr> \<and>
   symbol_return_tuples ''2330.TW''
     [\<lparr>ticker = ''2330.TW'', Date = ''2023-12-29'', Open = Fin 100, High = Fin 100,
       Low = Fin 100, Close = Fin 100, Volume = 1000\<rparr>,
      \<lparr>ticker = ''2330.TW'', Date = ''2024-01-02'', Open = Fin 110, High = Fin 110,
       Low = Fin 110, Close = Fin 110, Volume = 1000\<rparr>,
      \<lparr>ticker = ''2330.TW'', Date = ''2024-12-30'', Open = Fin 90, High = Fin 90,
       Low = Fin 90, Close = Fin 90, Volume = 1000\<rparr>]
   = Inr [\<lparr>rv_symbol = ''2330.TW'', rv_date = ''2024-01-02'',
           rv_daily_return = Some (Fin (1 / 10)), rv_weekly_return = Some (Fin (1 / 10)),
           rv_monthly_return = Some (Fin (1 / 10)),
           rv_cumulative_return = Some (Fin (1 / 10))\<rparr>,
          \<lparr>rv_symbol = ''2330.TW'', rv_date = ''2024-12-30'',
           rv_daily_return = Some (Fin (- (90909 / 500000))),
           rv_weekly_return = Some (Fin (1 / 10)), rv_monthly_return = None,
           rv_cumulative_return = Some (Fin (- (1 / 10)))\<rparr>]"
proof (intro conjI)
  show "calculate_returns
     [\<lparr>ticker = ''2330.TW'', Date = ''2023-12-29'', Open = Fin 100, High = Fin 100,
       Low = Fin 100, Close = Fin 100, Volume = 1000\<rparr>,
      \<lparr>ticker = ''2330.TW'', Date = ''2024-01-02'', Open = Fin 110, High = Fin 110,
       Low = Fin 110, Close = Fin 110, Volume = 1000\<rparr>,
      \<lparr>ticker = ''2330.TW'', Date = ''2024-12-30'', Open = Fin 90, High = Fin 90,
       Low = Fin 90, Close = Fin 90, Volume = 1000\<rparr>] ''weekly''
   = Inr [\<lparr>ret_ticker = ''2330.TW'', ret_Date = ''2024-01-07'', ret_frequency = ''weekly'',
           ret_return = Fin (1 / 10), ret_cumulative_return = Fin (1 / 10)\<rparr>]"
    by (rule calculate_returns_turn(2))
next
  show "week_bin \<lparr>year = 2024, month = 12, day = 30\<rparr>
     \<noteq> toordinal \<lparr>year = 2024, month = 1, day = 7\<rparr>"
    by (simp add: week_bins_year_end ordinals_turn)
next
  show "iso_week \<lparr>year = 2024, month = 12, day = 30\<rparr>
     = iso_week \<lparr>year = 2024, month = 1, day = 7\<rparr>"
    by (simp add: iso_weeks_year_end)
next
  show "symbol_return_tuples ''2330.TW''
     [\<lparr>ticker = ''2330.TW'', Date = ''2023-12-29'', Open = Fin 100, High = Fin 100,
       Low = Fin 100, Close = Fin 100, Volume = 1000\<rparr>,
      \<lparr>ticker = ''2330.TW'', Date = ''2024-01-02'', Open = Fin 110, High = Fin 110,
       Low = Fin 110, Close = Fin 110, Volume = 1000\<rparr>,
      \<lparr>ticker = ''2330.TW'', Date = ''2024-12-30'', Open = Fin 90, High = Fin 90,
       Low = Fin 90, Close = Fin 90, Volume = 1000\<rparr>]
   = Inr [\<lparr>rv_symbol = ''2330.TW'', rv_date = ''2024-01-02'',
           rv_daily_return = Some (Fin (1 / 10)), rv_weekly_return = Some (Fin (1 / 10)),
           rv_monthly_return = Some (Fin (1 / 10)),
           rv_cumulative_return = Some (Fin (1 / 10))\<rparr>,
          \<lparr>rv_symbol = ''2330.TW'', rv_date = ''2024-12-30'',
           rv_daily_return = Some (Fin (- (90909 / 500000))),
           rv_weekly_return = Some (Fin (1 / 10)), rv_monthly_return = None,
           rv_cumulative_return = Some (Fin (- (1 / 10)))\<rparr>]"
    by (simp add: symbol_return_tuples_def calculate_returns_turn bind_err_simps
        return_tuples_def return_tuple_def find_weekly_turn find_monthly_turn
        coerce_null_def isinf_def isnan_def del: find_weekly.simps find_monthly.simps)
next
  show "calculate_returns
     [\<lparr>ticker = ''2330.TW'', Date = ''2024-12-27'', Open = Fin 100, High = Fin 100,
       Low = Fin 100, Close = Fin 100, Volume = 1000\<rparr>,
      \<lparr>ticker = ''2330.TW'', Date = ''2024-12-30'', Open = Fin 110, High = Fin 110,
       Low = Fin 110, Close = Fin 110, Volume = 1000\<rparr>,
      \<lparr>ticker = ''2330.TW'', Date = ''2024-12-31'', Open = Fin 121, High = Fin 121,
       Low = Fin 121, Close = Fin 121, Volume = 1000\<rparr>] ''weekly''
   = Inr [\<lparr>ret_ticker = ''2330.TW'', ret_Date = ''2025-01-05'', ret_frequency = ''weekly'',
           ret_return = Fin (21 / 100), ret_cumulative_return = Fin (21 / 100)\<rparr>]"
    by (rule calculate_returns_year_end(2))
next
  show "week_bin \<lparr>year = 2024, month = 12, day = 30\<rparr>
     = toordinal \<lparr>year = 2025, month = 1, day = 5\<rparr>"
    by (simp add: week_bins_year_end ordinals_year_end)
next
  show "week_bin \<lparr>year = 2024, month = 12, day = 31\<rparr>
     = toordinal \<lparr>year = 2025, month = 1, day = 5\<rparr>"
    by (simp add: week_bins_year_end ordinals_year_end)
next
  show "iso_week \<lparr>year = 2024, month = 12, day = 30\<rparr>
     = iso_week \<lparr>year = 2025, month = 1, day = 5\<rparr>"
    by (simp add: iso_weeks_year_end)
next
  show "symbol_return_tuples ''2330.TW''
     [\<lparr>ticker = ''2330.TW'', Date = ''2024-12-27'', Open = Fin 100, High = Fin 100,
       Low = Fin 100, Close = Fin 100, Volume = 1000\<rparr>,
      \<lparr>ticker = ''2330.TW'', Date = ''2024-12-30'', Open = Fin 110, High = Fin 110,
       Low = Fin 110, Close = Fin 110, Volume = 1000\<rparr>,
      \<lparr>ticker = ''2330.TW'', Date = ''2024-12-31'', Open = Fin 121, High = Fin 121,
       Low = Fin 121, Close = Fin 121, Volume = 1000\<rparr>]
   = Inr [\<lparr>rv_symbol = ''2330.TW'', rv_date = ''2024-12-30'',
           rv_daily_return = Some (Fin (1 / 10)), rv_weekly_return = None,
           rv_monthly_return = None, rv_cumulative_return = Some (Fin (1 / 10))\<rparr>,
          \<lparr>rv_symbol = ''2330.TW'', rv_date = ''2024-12-31'',
           rv_daily_return = Some (Fin (1 / 10)), rv_weekly_return = None,
           rv_monthly_return = None, rv_cumulative_return = Some (Fin (21 / 100))\<rparr>]"
    by (simp add: symbol_return_tuples_def calculate_returns_year_end bind_err_simps
        return_tuples_def return_tuple_def find_weekly_year_end coerce_null_def
        isinf_def isnan_def del: find_weekly.simps)
qed


end
